theory Spec2Isabelle
  imports Complex_Main "HOL-Library.Sublist" "HOL-Library.Product_Lexorder" "HOL-Library.Multiset"
begin

section \<open>ECMAScript values used by \<open>searchChargers\<close>\<close>

text \<open>
  A JavaScript number is \<open>NaN\<close>, one of the two infinities or a finite value. Finite
  values are modelled as exact reals: the rounding of IEEE-754 doubles and the sign of
  zero are not modelled, everything else (NaN propagation, comparisons with NaN,
  truthiness) follows ECMAScript.
\<close>

datatype jsnum = NaN | NInf | Fin real | PInf

text \<open>\<open>a <= b\<close> on numbers: false as soon as one side is NaN.\<close>

fun js_le :: "jsnum \<Rightarrow> jsnum \<Rightarrow> bool" where
  "js_le NaN b = False"
| "js_le a NaN = False"
| "js_le NInf b = True"
| "js_le a PInf = True"
| "js_le (Fin x) (Fin y) = (x \<le> y)"
| "js_le PInf b = False"
| "js_le a NInf = False"

text \<open>\<open>a >= b\<close> on numbers.\<close>

definition js_ge :: "jsnum \<Rightarrow> jsnum \<Rightarrow> bool" where
  "js_ge a b = js_le b a"

text \<open>\<open>a + b\<close> on numbers.\<close>

fun js_add :: "jsnum \<Rightarrow> jsnum \<Rightarrow> jsnum" where
  "js_add NaN b = NaN"
| "js_add a NaN = NaN"
| "js_add PInf NInf = NaN"
| "js_add NInf PInf = NaN"
| "js_add PInf b = PInf"
| "js_add a PInf = PInf"
| "js_add NInf b = NInf"
| "js_add a NInf = NInf"
| "js_add (Fin x) (Fin y) = Fin (x + y)"

text \<open>\<open>a - b\<close> on numbers.\<close>

fun js_sub :: "jsnum \<Rightarrow> jsnum \<Rightarrow> jsnum" where
  "js_sub NaN b = NaN"
| "js_sub a NaN = NaN"
| "js_sub PInf PInf = NaN"
| "js_sub NInf NInf = NaN"
| "js_sub PInf b = PInf"
| "js_sub a NInf = PInf"
| "js_sub NInf b = NInf"
| "js_sub a PInf = NInf"
| "js_sub (Fin x) (Fin y) = Fin (x - y)"

text \<open>
  The values that reach a truthiness test or a coercion in \<open>searchChargers\<close>:
  \<open>undefined\<close>, booleans, strings and numbers. Strings are sequences of code units
  in the range U+0000 to U+00FF.
\<close>

datatype jsval = Undefined | JBool bool | JStr string | JNumber jsnum

text \<open>ToBoolean.\<close>

fun truthy :: "jsval \<Rightarrow> bool" where
  "truthy Undefined = False"
| "truthy (JBool b) = b"
| "truthy (JStr s) = (s \<noteq> [])"
| "truthy (JNumber n) = (n \<noteq> NaN \<and> n \<noteq> Fin 0)"

text \<open>\<open>a || b\<close> and \<open>a && b\<close> (both operands here are free of effects).\<close>

definition js_or :: "jsval \<Rightarrow> jsval \<Rightarrow> jsval" where
  "js_or a b = (if truthy a then a else b)"

definition js_and :: "jsval \<Rightarrow> jsval \<Rightarrow> jsval" where
  "js_and a b = (if truthy a then b else a)"

text \<open>The value of \<open>JSON.parse\<close>.\<close>

datatype json =
    JSON_null
  | JSON_bool bool
  | JSON_number jsnum
  | JSON_string string
  | JSON_array "json list"
  | JSON_object "(string \<times> json) list"

text \<open>
  The two parsers of the host that \<open>searchChargers\<close> calls are parameters of the model:
  \<open>StringToNumber\<close> is \<open>Number\<close> applied to a string, \<open>JSON_parse\<close> is
  \<open>JSON.parse\<close>, with \<open>None\<close> when it throws a SyntaxError.
\<close>

record host =
  StringToNumber :: "string \<Rightarrow> jsnum"
  JSON_parse :: "string \<Rightarrow> json option"

text \<open>\<open>Number(v)\<close>.\<close>

fun Number :: "host \<Rightarrow> jsval \<Rightarrow> jsnum" where
  "Number H Undefined = NaN"
| "Number H (JBool b) = (if b then Fin 1 else Fin 0)"
| "Number H (JStr s) = StringToNumber H s"
| "Number H (JNumber n) = n"

subsection \<open>Strings\<close>

text \<open>\<open>String.prototype.toLowerCase\<close> on code units up to U+00FF.\<close>

definition lower_char :: "char \<Rightarrow> char" where
  "lower_char c =
     (let n = (of_char c :: nat)
      in if (65 \<le> n \<and> n \<le> 90) \<or> (192 \<le> n \<and> n \<le> 222 \<and> n \<noteq> 215)
         then char_of (n + 32) else c)"

definition toLowerCase :: "string \<Rightarrow> string" where
  "toLowerCase s = map lower_char s"

text \<open>\<open>String.prototype.trim\<close>: white space and line terminators up to U+00FF.\<close>

definition is_space :: "char \<Rightarrow> bool" where
  "is_space c = ((of_char c :: nat) \<in> {9, 10, 11, 12, 13, 32, 160})"

definition trim :: "string \<Rightarrow> string" where
  "trim s = rev (dropWhile is_space (rev (dropWhile is_space s)))"

text \<open>\<open>s.includes(t)\<close>.\<close>

fun includes' :: "string \<Rightarrow> string \<Rightarrow> bool" where
  "includes' [] t = (t = [])"
| "includes' (c # cs) t = (prefix t (c # cs) \<or> includes' cs t)"

section \<open>The store\<close>

text \<open>
  One element of the reply of \<open>geoSearchWith\<close> with WITHDIST and WITHCOORD:
  \<open>{ member, distance, coordinates?: { longitude, latitude } }\<close>. The client delivers
  the distance as a non-empty decimal string, \<open>"0.0000"\<close> for a member at the origin,
  and the coordinates as strings. The fields admit any value, so that the guard of line
  63 keeps both of its branches in the model.
\<close>

record geocoord =
  longitude :: jsval
  latitude :: jsval

record geohit =
  member' :: string
  distance :: jsval
  coordinates :: "geocoord option"

type_synonym hash = "string \<rightharpoonup> string"

text \<open>
  The client returned by \<open>getRedis()\<close>. \<open>geoSearchWith key (longitude, latitude)
  radius count\<close> is the radius query in km with WITHDIST, WITHCOORD and SORT ASC;
  \<open>hGetAll key\<close> reads a hash and gives the empty record for a missing key. \<open>None\<close>
  is a rejected promise.
\<close>

record redis =
  geoSearchWith :: "string \<Rightarrow> jsnum \<times> jsnum \<Rightarrow> jsnum \<Rightarrow> jsnum \<Rightarrow> geohit list option"
  hGetAll :: "string \<Rightarrow> hash option"

datatype error = StoreError | SyntaxError

section \<open>searchChargers\<close>

record opts =
  lat :: jsnum
  lng :: jsnum
  radiusKm :: "jsnum option"
  limit :: "jsnum option"
  minPower :: "jsnum option"
  maxPrice :: "jsnum option"
  q :: "string option"
  sortBy :: "string option"

record coords =
  coords_lat :: jsval
  coords_lng :: jsval

record item =
  id' :: string
  name :: "string option"
  address :: "string option"
  powerKW :: jsnum
  pricePerKWh :: jsnum
  status :: "string option"
  amenities :: json
  updatedAt :: jsnum
  coords :: "coords option"
  distanceKm :: jsnum

text \<open>Reading a property of a hash: the stored string, or \<open>undefined\<close>.\<close>

definition hget :: "hash \<Rightarrow> string \<Rightarrow> jsval" where
  "hget h k = (case h k of None \<Rightarrow> Undefined | Some s \<Rightarrow> JStr s)"

text \<open>\<open>x || d\<close> for a property \<open>x\<close> (a string or \<open>undefined\<close>) and a string \<open>d\<close>.\<close>

definition or_else :: "string option \<Rightarrow> string \<Rightarrow> string" where
  "or_else x d = (case x of None \<Rightarrow> d | Some s \<Rightarrow> if s \<noteq> [] then s else d)"

text \<open>A destructuring default: \<open>{ x = d } = opts\<close>.\<close>

definition dflt :: "'a option \<Rightarrow> 'a \<Rightarrow> 'a" where
  "dflt x d = (case x of None \<Rightarrow> d | Some v \<Rightarrow> v)"

text \<open>
  The callback of \<open>ids.map\<close> (lines 41 to 65): the record built from the id, the hash
  \<open>h\<close> and the geo reply \<open>g\<close>. \<open>JSON.parse\<close> is the only call in it that can throw.
\<close>

definition resolve_coords :: "host \<Rightarrow> hash \<Rightarrow> geohit \<Rightarrow> coords option" where
  "resolve_coords H h g =
     (if truthy (js_and (hget h ''lat'') (hget h ''lng''))
      then Some \<lparr>coords_lat = JNumber (Number H (hget h ''lat'')),
                 coords_lng = JNumber (Number H (hget h ''lng''))\<rparr>
      else (case coordinates g of
              Some c \<Rightarrow> Some \<lparr>coords_lat = latitude c, coords_lng = longitude c\<rparr>
            | None \<Rightarrow> None))"

definition build_item :: "host \<Rightarrow> string \<Rightarrow> hash \<Rightarrow> geohit \<Rightarrow> error + item" where
  "build_item H i h g =
     (let cs = resolve_coords H h g
      in case JSON_parse H (or_else (h ''amenities'') ''[]'') of
           None \<Rightarrow> Inl SyntaxError
         | Some a \<Rightarrow>
             Inr \<lparr>id' = i,
                  name = h ''name'',
                  address = h ''address'',
                  powerKW = Number H (hget h ''powerKW''),
                  pricePerKWh = Number H (hget h ''pricePerKWh''),
                  status = h ''status'',
                  amenities = a,
                  updatedAt = Number H (hget h ''updatedAt''),
                  coords = cs,
                  distanceKm = (if truthy (distance g) then Number H (distance g) else NaN)\<rparr>)"

text \<open>Running the callbacks in index order; the first exception ends the call.\<close>

fun collect :: "(error + 'a) list \<Rightarrow> error + 'a list" where
  "collect [] = Inr []"
| "collect (x # xs) =
     (case x of
        Inl e \<Rightarrow> Inl e
      | Inr v \<Rightarrow> (case collect xs of Inl e \<Rightarrow> Inl e | Inr vs \<Rightarrow> Inr (v # vs)))"

definition merge_items :: "host \<Rightarrow> string list \<Rightarrow> hash list \<Rightarrow> geohit list \<Rightarrow> error + item list" where
  "merge_items H ids hashes geo =
     collect (map (\<lambda>i. build_item H (ids ! i) (hashes ! i) (geo ! i)) [0..<length ids])"

text \<open>\<open>x?.toLowerCase().includes(query)\<close> for a property \<open>x\<close>.\<close>

definition lower_includes :: "string option \<Rightarrow> string \<Rightarrow> jsval" where
  "lower_includes x query =
     (case x of None \<Rightarrow> Undefined | Some s \<Rightarrow> JBool (includes' (toLowerCase s) query))"

text \<open>The callback of \<open>items.filter\<close> (lines 69 to 84): the truthiness of what it returns.\<close>

definition keeps :: "string \<Rightarrow> jsnum \<Rightarrow> jsnum \<Rightarrow> item \<Rightarrow> bool" where
  "keeps query minP maxP c =
     (let matchesQ = js_or (js_or (JBool (query = [])) (lower_includes (name c) query))
                           (lower_includes (address c) query);
          matchesPower = JBool (js_ge (powerKW c) minP);
          matchesPrice = JBool (js_le (pricePerKWh c) (js_add maxP (Fin (1 / 10 ^ 9))))
      in truthy (js_and (js_and matchesQ matchesPower) matchesPrice))"

definition filter_items :: "string \<Rightarrow> jsnum \<Rightarrow> jsnum \<Rightarrow> item list \<Rightarrow> item list" where
  "filter_items qtext minP maxP items =
     (let query = trim (toLowerCase qtext) in filter (keeps query minP maxP) items)"

text \<open>
  \<open>Array.prototype.sort\<close> with a comparator. A comparator result that is NaN counts as
  \<open>+0\<close>; the sort is stable. For a comparator that is not a consistent ordering
  ECMAScript leaves the order to the implementation; the model is the stable insertion
  sort, which moves an element behind another one only when the comparator is positive.
\<close>

fun js_positive :: "jsnum \<Rightarrow> bool" where
  "js_positive PInf = True"
| "js_positive (Fin x) = (0 < x)"
| "js_positive v = False"

fun sort_insert :: "('a \<Rightarrow> 'a \<Rightarrow> jsnum) \<Rightarrow> 'a \<Rightarrow> 'a list \<Rightarrow> 'a list" where
  "sort_insert cmp x [] = [x]"
| "sort_insert cmp x (y # ys) =
     (if js_positive (cmp x y) then y # sort_insert cmp x ys else x # y # ys)"

fun Array_sort :: "('a \<Rightarrow> 'a \<Rightarrow> jsnum) \<Rightarrow> 'a list \<Rightarrow> 'a list" where
  "Array_sort cmp [] = []"
| "Array_sort cmp (x # xs) = sort_insert cmp x (Array_sort cmp xs)"

text \<open>The comparator of lines 88 to 93.\<close>

definition compareFn :: "string \<Rightarrow> item \<Rightarrow> item \<Rightarrow> jsnum" where
  "compareFn sb a b =
     (if sb = ''power'' then js_sub (powerKW b) (powerKW a)
      else if sb = ''price'' then js_sub (pricePerKWh a) (pricePerKWh b)
      else if sb = ''updated'' then js_sub (updatedAt b) (updatedAt a)
      else Fin 0)"

definition sort_items :: "string \<Rightarrow> item list \<Rightarrow> item list" where
  "sort_items sb items =
     (if sb \<noteq> ''distance'' then Array_sort (compareFn sb) items else items)"

text \<open>
  The whole function. A rejected store call rejects the call (\<open>Promise.all\<close> rejects as
  soon as one \<open>hGetAll\<close> does) and a SyntaxError of \<open>JSON.parse\<close> is not caught.
\<close>

definition searchChargers :: "host \<Rightarrow> redis \<Rightarrow> opts \<Rightarrow> error + item list" where
  "searchChargers H R os =
     (let radius = dflt (radiusKm os) (Fin 30);
          lim = dflt (limit os) (Fin 200);
          minP = dflt (minPower os) (Fin 0);
          maxP = dflt (maxPrice os) (Fin 10);
          qtext = dflt (q os) '''';
          sb = dflt (sortBy os) ''distance''
      in case geoSearchWith R ''chargers:geo'' (lng os, lat os) radius lim of
           None \<Rightarrow> Inl StoreError
         | Some geo \<Rightarrow>
             (let ids = map member' geo
              in case those (map (\<lambda>i. hGetAll R (''charger:'' @ i)) ids) of
                   None \<Rightarrow> Inl StoreError
                 | Some hashes \<Rightarrow>
                     (case merge_items H ids hashes geo of
                        Inl e \<Rightarrow> Inl e
                      | Inr items \<Rightarrow> Inr (sort_items sb (filter_items qtext minP maxP items)))))"

section \<open>The statements of the specification\<close>

text \<open>
  The filter predicate in the words of the specification: the lowercased, trimmed query
  text is empty or occurs in the lowercased name or in the lowercased address, the power
  is at least the minimum and the price at most the maximum plus \<open>1e-9\<close>.
\<close>

definition occurs_in :: "string \<Rightarrow> string \<Rightarrow> bool" where
  "occurs_in t s = (\<exists>pre post. s = pre @ t @ post)"

definition text_matches :: "string \<Rightarrow> item \<Rightarrow> bool" where
  "text_matches qtext c =
     (trim (toLowerCase qtext) = []
      \<or> (\<exists>n. name c = Some n \<and> occurs_in (trim (toLowerCase qtext)) (toLowerCase n))
      \<or> (\<exists>a. address c = Some a \<and> occurs_in (trim (toLowerCase qtext)) (toLowerCase a)))"

definition passes :: "string \<Rightarrow> jsnum \<Rightarrow> jsnum \<Rightarrow> item \<Rightarrow> bool" where
  "passes qtext minP maxP c =
     (text_matches qtext c
      \<and> js_ge (powerKW c) minP
      \<and> js_le (pricePerKWh c) (js_add maxP (Fin (1 / 10 ^ 9))))"

text \<open>
  A list is descending by a key when \<open>key a >= key b\<close> holds for every record \<open>a\<close>
  that comes before a record \<open>b\<close> in it, and ascending when \<open>key a <= key b\<close> does. A
  rearrangement is stable when it keeps, for every key value, the records with that value
  in their order.
\<close>

definition descending_by :: "(item \<Rightarrow> jsnum) \<Rightarrow> item list \<Rightarrow> bool" where
  "descending_by key xs = sorted_wrt (\<lambda>a b. js_ge (key a) (key b)) xs"

definition ascending_by :: "(item \<Rightarrow> jsnum) \<Rightarrow> item list \<Rightarrow> bool" where
  "ascending_by key xs = sorted_wrt (\<lambda>a b. js_le (key a) (key b)) xs"

definition stable_by :: "(item \<Rightarrow> jsnum) \<Rightarrow> item list \<Rightarrow> item list \<Rightarrow> bool" where
  "stable_by key xs ys =
     (mset ys = mset xs \<and> (\<forall>k. filter (\<lambda>c. key c = k) ys = filter (\<lambda>c. key c = k) xs))"

text \<open>
  A field counts as stored when the hash has it with a non-empty value: this is the
  test \<open>h.lat && h.lng\<close> of line 47, in which an empty string is falsy.
\<close>

definition stored :: "hash \<Rightarrow> string \<Rightarrow> bool" where
  "stored h k = (case h k of None \<Rightarrow> False | Some s \<Rightarrow> s \<noteq> [])"

text \<open>The coordinates that the index echoes, as a \<open>coords\<close> value.\<close>

definition index_coords :: "geohit \<Rightarrow> coords option" where
  "index_coords g =
     (case coordinates g of
        Some c \<Rightarrow> Some \<lparr>coords_lat = latitude c, coords_lng = longitude c\<rparr>
      | None \<Rightarrow> None)"

section \<open>A host and stores for running the model\<close>

text \<open>
  \<open>Number\<close> on a string, after StringNumericLiteral: white space around the literal is
  dropped, the empty string is 0, a decimal literal may have a sign, a fraction and an
  exponent, \<open>Infinity\<close> may have a sign, and \<open>0b\<close>, \<open>0o\<close> and \<open>0x\<close> start a
  binary, octal or hexadecimal integer. Everything else is NaN.
\<close>

definition digit_value :: "nat \<Rightarrow> char \<Rightarrow> nat option" where
  "digit_value base c =
     (let n = (of_char c :: nat);
          v = (if 48 \<le> n \<and> n \<le> 57 then Some (n - 48)
               else if 97 \<le> n \<and> n \<le> 102 then Some (n - 87)
               else if 65 \<le> n \<and> n \<le> 70 then Some (n - 55)
               else None)
      in case v of None \<Rightarrow> None | Some d \<Rightarrow> if d < base then Some d else None)"

fun digits_value :: "nat \<Rightarrow> string \<Rightarrow> nat \<Rightarrow> nat option" where
  "digits_value base [] acc = Some acc"
| "digits_value base (c # cs) acc =
     (case digit_value base c of
        None \<Rightarrow> None
      | Some d \<Rightarrow> digits_value base cs (acc * base + d))"

definition exponent_value :: "string \<Rightarrow> int option" where
  "exponent_value s =
     (case s of
        [] \<Rightarrow> Some 0
      | e # r \<Rightarrow>
          (let neg = (take 1 r = ''-'');
               ds = (if take 1 r = ''-'' \<or> take 1 r = ''+'' then drop 1 r else r)
           in if ds = [] then None
              else (case digits_value 10 ds 0 of
                      None \<Rightarrow> None
                    | Some n \<Rightarrow> Some (if neg then - int n else int n))))"

definition unsigned_decimal :: "string \<Rightarrow> jsnum" where
  "unsigned_decimal s =
     (if s = ''Infinity'' then PInf
      else
        (let is_e = (\<lambda>c. c = CHR ''e'' \<or> c = CHR ''E'');
             mant = takeWhile (\<lambda>c. \<not> is_e c) s;
             ip = takeWhile (\<lambda>c. c \<noteq> CHR ''.'') mant;
             fp = drop 1 (dropWhile (\<lambda>c. c \<noteq> CHR ''.'') mant)
         in if ip = [] \<and> fp = [] then NaN
            else (case (digits_value 10 ip 0, digits_value 10 fp 0,
                        exponent_value (dropWhile (\<lambda>c. \<not> is_e c) s)) of
                    (Some i, Some f, Some e) \<Rightarrow>
                      (let m = real i + real f / 10 ^ length fp
                       in Fin (if 0 \<le> e then m * 10 ^ nat e else m / 10 ^ nat (- e)))
                  | _ \<Rightarrow> NaN)))"

definition js_neg :: "jsnum \<Rightarrow> jsnum" where
  "js_neg v = (case v of NaN \<Rightarrow> NaN | NInf \<Rightarrow> PInf | Fin x \<Rightarrow> Fin (- x) | PInf \<Rightarrow> NInf)"

definition radix_literal :: "nat \<Rightarrow> string \<Rightarrow> jsnum" where
  "radix_literal base ds =
     (if ds = [] then NaN
      else (case digits_value base ds 0 of None \<Rightarrow> NaN | Some n \<Rightarrow> Fin (real n)))"

definition string_to_number :: "string \<Rightarrow> jsnum" where
  "string_to_number s =
     (let t = trim s; p = take 2 t
      in if t = [] then Fin 0
         else if p = ''0x'' \<or> p = ''0X'' then radix_literal 16 (drop 2 t)
         else if p = ''0o'' \<or> p = ''0O'' then radix_literal 8 (drop 2 t)
         else if p = ''0b'' \<or> p = ''0B'' then radix_literal 2 (drop 2 t)
         else if take 1 t = ''-'' then js_neg (unsigned_decimal (drop 1 t))
         else if take 1 t = ''+'' then unsigned_decimal (drop 1 t)
         else unsigned_decimal t)"

text \<open>
  \<open>JSON.parse\<close> on the texts the seeding script writes into the \<open>amenities\<close> field:
  an array of string literals without escapes, with JSON white space between the
  tokens. This reader rejects every other text; it stands for \<open>JSON.parse\<close> only on
  such arrays and on texts that are not JSON at all.
\<close>

datatype scan = Start | Opened | InString | AfterString | AfterComma | Closed

definition json_space :: "char \<Rightarrow> bool" where
  "json_space c = ((of_char c :: nat) \<in> {9, 10, 13, 32})"

fun scan_array :: "scan \<Rightarrow> string \<Rightarrow> string list \<Rightarrow> string \<Rightarrow> string list option" where
  "scan_array st cur acc [] = (if st = Closed then Some (rev acc) else None)"
| "scan_array st cur acc (c # cs) =
     (case st of
        Start \<Rightarrow>
          if json_space c then scan_array Start cur acc cs
          else if c = CHR ''['' then scan_array Opened cur acc cs
          else None
      | Opened \<Rightarrow>
          if json_space c then scan_array Opened cur acc cs
          else if c = CHR '']'' then scan_array Closed cur acc cs
          else if c = CHR 0x22 then scan_array InString [] acc cs
          else None
      | InString \<Rightarrow>
          if c = CHR 0x22 then scan_array AfterString [] (rev cur # acc) cs
          else if c = CHR 0x5C \<or> (of_char c :: nat) < 32 then None
          else scan_array InString (c # cur) acc cs
      | AfterString \<Rightarrow>
          if json_space c then scan_array AfterString cur acc cs
          else if c = CHR '','' then scan_array AfterComma cur acc cs
          else if c = CHR '']'' then scan_array Closed cur acc cs
          else None
      | AfterComma \<Rightarrow>
          if json_space c then scan_array AfterComma cur acc cs
          else if c = CHR 0x22 then scan_array InString [] acc cs
          else None
      | Closed \<Rightarrow>
          if json_space c then scan_array Closed cur acc cs else None)"

definition parse_string_array :: "string \<Rightarrow> json option" where
  "parse_string_array s = map_option (\<lambda>ss. JSON_array (map JSON_string ss)) (scan_array Start [] [] s)"

text \<open>The host of the examples.\<close>

definition node :: host where
  "node = \<lparr>StringToNumber = string_to_number, JSON_parse = parse_string_array\<rparr>"

text \<open>
  A store with a fixed content: the radius query on \<open>chargers:geo\<close> answers \<open>hits\<close>,
  and \<open>hGetAll\<close> reads the table of hashes, with the empty record for a missing key.
\<close>

definition store :: "geohit list \<Rightarrow> (string \<times> (string \<times> string) list) list \<Rightarrow> redis" where
  "store hits tbl =
     \<lparr>geoSearchWith = (\<lambda>key from radius count. if key = ''chargers:geo'' then Some hits else Some []),
      hGetAll = (\<lambda>key. case map_of tbl key of None \<Rightarrow> Some Map.empty | Some fs \<Rightarrow> Some (map_of fs))\<rparr>"

text \<open>
  A hit with the coordinates of ION Orchard echoed as strings, the fields of a seeded
  hash, and the request of the default origin with every option omitted.
\<close>

definition hit :: "string \<Rightarrow> jsval \<Rightarrow> geohit" where
  "hit i d = \<lparr>member' = i, distance = d,
              coordinates = Some \<lparr>longitude = JStr ''103.8318'', latitude = JStr ''1.304''\<rparr>\<rparr>"

definition charger :: "string \<Rightarrow> string \<Rightarrow> string \<Rightarrow> string \<Rightarrow> string \<Rightarrow> (string \<times> string) list" where
  "charger n p c am u =
     [(''name'', n), (''address'', ''2 Orchard Turn''), (''powerKW'', p), (''pricePerKWh'', c),
      (''amenities'', am), (''updatedAt'', u)]"

definition plain_query :: opts where
  "plain_query = \<lparr>lat = Fin 1.3521, lng = Fin 103.8198, radiusKm = None, limit = None,
                  minPower = None, maxPrice = None, q = None, sortBy = None\<rparr>"

text \<open>Three hits in ascending distance and the hashes of their chargers.\<close>

definition three_hits :: "geohit list" where
  "three_hits = [hit ''a'' (JStr ''1.5''), hit ''b'' (JStr ''2.5''), hit ''c'' (JStr ''4.25'')]"

definition seeded :: "(string \<times> (string \<times> string) list) list" where
  "seeded =
     [(''charger:a'', charger ''Suntec City Carpark B1'' ''60'' ''0.5'' ''[]'' ''3''),
      (''charger:b'', charger ''ION Orchard L5 EV Bays'' ''150'' ''0.55'' ''[]'' ''5''),
      (''charger:c'', charger ''Vivocity Rooftop EV'' ''120'' ''0.5'' ''[]'' ''4'')]"

text \<open>
  The record of a seeded charger as the examples return it, and the record that the merge
  stage builds for the hit \<open>ghost\<close>, which has no hash.
\<close>

definition listed :: "string \<Rightarrow> string \<Rightarrow> jsnum \<Rightarrow> jsnum \<Rightarrow> jsnum \<Rightarrow> jsnum \<Rightarrow> item" where
  "listed i n p c u d =
     \<lparr>id' = i, name = Some n, address = Some ''2 Orchard Turn'', powerKW = p, pricePerKWh = c,
      status = None, amenities = JSON_array [], updatedAt = u,
      coords = Some \<lparr>coords_lat = JStr ''1.304'', coords_lng = JStr ''103.8318''\<rparr>,
      distanceKm = d\<rparr>"

definition unseeded :: item where
  "unseeded =
     \<lparr>id' = ''ghost'', name = None, address = None, powerKW = NaN, pricePerKWh = NaN,
      status = None, amenities = JSON_array [], updatedAt = NaN,
      coords = Some \<lparr>coords_lat = JStr ''1.304'', coords_lng = JStr ''103.8318''\<rparr>,
      distanceKm = Fin (4 / 5)\<rparr>"

text \<open>
  Variants of the seeded table: \<open>spoiled\<close> holds an \<open>amenities\<close> text that is not JSON,
  \<open>undated\<close> has no \<open>updatedAt\<close> for charger \<open>b\<close>, \<open>pricey\<close> prices charger \<open>b\<close>
  above the default maximum, and \<open>located\<close> is a hash with stored coordinates.
  \<open>listing\<close> is the merge of the three hits with the seeded table, \<open>origin_hits\<close>
  has charger \<open>a\<close> at the origin of the query, and \<open>unreachable\<close> is a store whose
  index answers while every \<open>hGetAll\<close> is rejected.
\<close>

definition spoiled :: "(string \<times> (string \<times> string) list) list" where
  "spoiled =
     [(''charger:a'', charger ''Suntec City Carpark B1'' ''60'' ''0.5'' ''[]'' ''3''),
      (''charger:b'', charger ''ION Orchard L5 EV Bays'' ''150'' ''0.55'' ''Mall, Food'' ''5''),
      (''charger:c'', charger ''Vivocity Rooftop EV'' ''120'' ''0.5'' ''[]'' ''4'')]"

definition undated :: "(string \<times> (string \<times> string) list) list" where
  "undated =
     [(''charger:a'', charger ''Suntec City Carpark B1'' ''60'' ''0.5'' ''[]'' ''3''),
      (''charger:b'', [(''name'', ''ION Orchard L5 EV Bays''), (''address'', ''2 Orchard Turn''),
                       (''powerKW'', ''150''), (''pricePerKWh'', ''0.55'')]),
      (''charger:c'', charger ''Vivocity Rooftop EV'' ''120'' ''0.5'' ''[]'' ''5'')]"

definition listing :: "item list" where
  "listing =
     [listed ''a'' ''Suntec City Carpark B1'' (Fin 60) (Fin (1 / 2)) (Fin 3) (Fin (3 / 2)),
      listed ''b'' ''ION Orchard L5 EV Bays'' (Fin 150) (Fin (11 / 20)) (Fin 5) (Fin (5 / 2)),
      listed ''c'' ''Vivocity Rooftop EV'' (Fin 120) (Fin (1 / 2)) (Fin 4) (Fin (17 / 4))]"

definition origin_hits :: "geohit list" where
  "origin_hits = [hit ''a'' (JStr ''0.0000''), hit ''b'' (JStr ''2.5'')]"

definition unreachable :: "geohit list \<Rightarrow> redis" where
  "unreachable hits =
     \<lparr>geoSearchWith = (\<lambda>key from radius count. if key = ''chargers:geo'' then Some hits else Some []),
      hGetAll = (\<lambda>key. None)\<rparr>"

definition located :: hash where
  "located = map_of (charger ''Suntec City Carpark B1'' ''60'' ''0.5'' ''[]'' ''3''
                      @ [(''lat'', ''1.29''), (''lng'', ''103.9'')])"

definition pricey :: "(string \<times> (string \<times> string) list) list" where
  "pricey =
     [(''charger:a'', charger ''Suntec City Carpark B1'' ''60'' ''0.5'' ''[]'' ''3''),
      (''charger:b'', charger ''ION Orchard L5 EV Bays'' ''150'' ''12'' ''[]'' ''5''),
      (''charger:c'', charger ''Vivocity Rooftop EV'' ''120'' ''0.5'' ''[]'' ''4'')]"

text \<open>Keys of the orderings on numbers, for the comparison with \<open>sort_key\<close>.\<close>

fun rank_asc :: "jsnum \<Rightarrow> nat \<times> real" where
  "rank_asc NInf = (0, 0)"
| "rank_asc (Fin x) = (1, x)"
| "rank_asc PInf = (2, 0)"
| "rank_asc NaN = (3, 0)"

fun rank_desc :: "jsnum \<Rightarrow> nat \<times> real" where
  "rank_desc PInf = (0, 0)"
| "rank_desc (Fin x) = (1, - x)"
| "rank_desc NInf = (2, 0)"
| "rank_desc NaN = (3, 0)"

section \<open>Properties of the stages\<close>

lemma collect_map_Inr: "collect (map Inr ys) = Inr ys"
  by (induction ys) auto

lemma collect_Inr_D: "collect xs = Inr ys \<Longrightarrow> xs = map Inr ys"
  by (induction xs arbitrary: ys) (auto split: sum.splits)

lemma collect_Inr_iff: "collect xs = Inr ys \<longleftrightarrow> xs = map Inr ys"
  using collect_map_Inr collect_Inr_D by metis

lemma merge_items_Inr:
  assumes "merge_items H ids hashes geo = Inr items"
  shows "length items = length ids"
    and "\<forall>i<length ids. build_item H (ids ! i) (hashes ! i) (geo ! i) = Inr (items ! i)"
proof -
  from assms have eq: "map (\<lambda>i. build_item H (ids ! i) (hashes ! i) (geo ! i)) [0..<length ids] = map Inr items"
    by (simp add: merge_items_def collect_Inr_iff)
  from eq have "length (map (\<lambda>i. build_item H (ids ! i) (hashes ! i) (geo ! i)) [0..<length ids]) = length (map Inr items :: (error + item) list)"
    by simp
  then show len: "length items = length ids" by simp
  show "\<forall>i<length ids. build_item H (ids ! i) (hashes ! i) (geo ! i) = Inr (items ! i)"
  proof (intro allI impI)
    fix i assume i: "i < length ids"
    have "map (\<lambda>i. build_item H (ids ! i) (hashes ! i) (geo ! i)) [0..<length ids] ! i = (map Inr items :: (error + item) list) ! i"
      using eq by simp
    with i len show "build_item H (ids ! i) (hashes ! i) (geo ! i) = Inr (items ! i)" by simp
  qed
qed

lemma set_sort_insert: "set (sort_insert cmp x xs) = insert x (set xs)"
  by (induction xs) auto

lemma set_Array_sort: "set (Array_sort cmp xs) = set xs"
  by (induction xs) (auto simp: set_sort_insert)

lemma mset_sort_insert: "mset (sort_insert cmp x xs) = add_mset x (mset xs)"
  by (induction xs) auto

lemma mset_Array_sort: "mset (Array_sort cmp xs) = mset xs"
  by (induction xs) (auto simp: mset_sort_insert)

lemma sort_insert_insort_key:
  assumes "\<forall>y\<in>set ys. js_positive (cmp x y) \<longleftrightarrow> \<not> f x \<le> f y"
  shows "sort_insert cmp x ys = insort_key f x ys"
  using assms by (induction ys) auto

lemma Array_sort_sort_key:
  assumes "\<forall>x\<in>set xs. \<forall>y\<in>set xs. js_positive (cmp x y) \<longleftrightarrow> \<not> f x \<le> f y"
  shows "Array_sort cmp xs = sort_key f xs"
  using assms
proof (induction xs)
  case Nil
  then show ?case by simp
next
  case (Cons x xs)
  then have IH: "Array_sort cmp xs = sort_key f xs" by simp
  have "sort_insert cmp x (sort_key f xs) = insort_key f x (sort_key f xs)"
    using Cons.prems by (intro sort_insert_insort_key) simp
  with IH show ?case by simp
qed

lemma positive_sub_asc:
  "a \<noteq> NaN \<Longrightarrow> b \<noteq> NaN \<Longrightarrow> js_positive (js_sub a b) \<longleftrightarrow> \<not> rank_asc a \<le> rank_asc b"
  by (cases a; cases b) auto

lemma positive_sub_desc:
  "a \<noteq> NaN \<Longrightarrow> b \<noteq> NaN \<Longrightarrow> js_positive (js_sub b a) \<longleftrightarrow> \<not> rank_desc a \<le> rank_desc b"
  by (cases a; cases b) auto

lemma le_rank_asc: "a \<noteq> NaN \<Longrightarrow> b \<noteq> NaN \<Longrightarrow> js_le a b \<longleftrightarrow> rank_asc a \<le> rank_asc b"
  by (cases a; cases b) auto

lemma ge_rank_desc: "a \<noteq> NaN \<Longrightarrow> b \<noteq> NaN \<Longrightarrow> js_ge a b \<longleftrightarrow> rank_desc a \<le> rank_desc b"
  by (cases a; cases b) (auto simp: js_ge_def)

lemma rank_asc_inj: "rank_asc a = rank_asc b \<longleftrightarrow> a = b"
  by (cases a; cases b) auto

lemma rank_desc_inj: "rank_desc a = rank_desc b \<longleftrightarrow> a = b"
  by (cases a; cases b) auto

lemma includes_occurs: "includes' s t \<longleftrightarrow> occurs_in t s"
proof (induction s)
  case Nil
  then show ?case by (auto simp: occurs_in_def)
next
  case (Cons c cs)
  show ?case
  proof
    assume "includes' (c # cs) t"
    then consider "prefix t (c # cs)" | "includes' cs t" by auto
    then show "occurs_in t (c # cs)"
    proof cases
      case 1
      then obtain zs where "c # cs = t @ zs" by (auto simp: prefix_def)
      then have "c # cs = [] @ t @ zs" by simp
      then show ?thesis unfolding occurs_in_def by blast
    next
      case 2
      with Cons.IH obtain pre post where "cs = pre @ t @ post" by (auto simp: occurs_in_def)
      then have "c # cs = (c # pre) @ t @ post" by simp
      then show ?thesis unfolding occurs_in_def by blast
    qed
  next
    assume "occurs_in t (c # cs)"
    then obtain pre post where eq: "c # cs = pre @ t @ post" by (auto simp: occurs_in_def)
    show "includes' (c # cs) t"
    proof (cases pre)
      case Nil
      with eq have "prefix t (c # cs)" by (simp add: prefix_def)
      then show ?thesis by simp
    next
      case (Cons p pre')
      with eq have "cs = pre' @ t @ post" by simp
      then have "occurs_in t cs" unfolding occurs_in_def by blast
      with Cons.IH show ?thesis by simp
    qed
  qed
qed

lemma keeps_iff:
  "keeps query minP maxP c \<longleftrightarrow>
     (query = []
      \<or> (\<exists>n. name c = Some n \<and> includes' (toLowerCase n) query)
      \<or> (\<exists>a. address c = Some a \<and> includes' (toLowerCase a) query))
     \<and> js_ge (powerKW c) minP
     \<and> js_le (pricePerKWh c) (js_add maxP (Fin (1 / 10 ^ 9)))"
  by (cases "name c"; cases "address c")
     (auto simp: keeps_def js_or_def js_and_def lower_includes_def Let_def)

lemma js_le_not_NaN: "js_le a b \<Longrightarrow> a \<noteq> NaN \<and> b \<noteq> NaN"
  by (cases a; cases b) auto

lemma keeps_not_NaN:
  "keeps query minP maxP c \<Longrightarrow> powerKW c \<noteq> NaN \<and> pricePerKWh c \<noteq> NaN"
  using js_le_not_NaN by (auto simp: keeps_iff js_ge_def)

lemma filter_items_not_NaN:
  "c \<in> set (filter_items qtext minP maxP items) \<Longrightarrow> powerKW c \<noteq> NaN \<and> pricePerKWh c \<noteq> NaN"
  using keeps_not_NaN by (auto simp: filter_items_def Let_def)

lemma Array_sort_descending:
  assumes nn: "\<forall>c\<in>set xs. key c \<noteq> NaN"
    and cmp: "\<And>a b. cmp a b = js_sub (key b) (key a)"
  shows "descending_by key (Array_sort cmp xs)" and "stable_by key xs (Array_sort cmp xs)"
proof -
  let ?f = "\<lambda>c. rank_desc (key c)"
  have eq: "Array_sort cmp xs = sort_key ?f xs"
    using nn by (intro Array_sort_sort_key) (simp add: cmp positive_sub_desc)
  have "sorted (map ?f (sort_key ?f xs))" by (rule sorted_sort_key)
  then have "sorted_wrt (\<lambda>a b. ?f a \<le> ?f b) (sort_key ?f xs)" by (simp add: sorted_map)
  then have "sorted_wrt (\<lambda>a b. js_ge (key a) (key b)) (sort_key ?f xs)"
    by (rule sorted_wrt_mono_rel[rotated]) (use nn in \<open>simp add: ge_rank_desc\<close>)
  with eq show "descending_by key (Array_sort cmp xs)" by (simp add: descending_by_def)
  have "filter (\<lambda>c. key c = k) (sort_key ?f xs) = filter (\<lambda>c. key c = k) xs" for k
    using sort_key_stable[of ?f "rank_desc k" xs] by (simp add: rank_desc_inj)
  with eq show "stable_by key xs (Array_sort cmp xs)"
    by (simp add: stable_by_def mset_Array_sort)
qed

lemma Array_sort_ascending:
  assumes nn: "\<forall>c\<in>set xs. key c \<noteq> NaN"
    and cmp: "\<And>a b. cmp a b = js_sub (key a) (key b)"
  shows "ascending_by key (Array_sort cmp xs)" and "stable_by key xs (Array_sort cmp xs)"
proof -
  let ?f = "\<lambda>c. rank_asc (key c)"
  have eq: "Array_sort cmp xs = sort_key ?f xs"
    using nn by (intro Array_sort_sort_key) (simp add: cmp positive_sub_asc)
  have "sorted (map ?f (sort_key ?f xs))" by (rule sorted_sort_key)
  then have "sorted_wrt (\<lambda>a b. ?f a \<le> ?f b) (sort_key ?f xs)" by (simp add: sorted_map)
  then have "sorted_wrt (\<lambda>a b. js_le (key a) (key b)) (sort_key ?f xs)"
    by (rule sorted_wrt_mono_rel[rotated]) (use nn in \<open>simp add: le_rank_asc\<close>)
  with eq show "ascending_by key (Array_sort cmp xs)" by (simp add: ascending_by_def)
  have "filter (\<lambda>c. key c = k) (sort_key ?f xs) = filter (\<lambda>c. key c = k) xs" for k
    using sort_key_stable[of ?f "rank_asc k" xs] by (simp add: rank_asc_inj)
  with eq show "stable_by key xs (Array_sort cmp xs)"
    by (simp add: stable_by_def mset_Array_sort)
qed

lemma those_Some_D: "those xs = Some ys \<Longrightarrow> xs = map Some ys"
  by (induction xs arbitrary: ys) (auto split: option.splits)

lemma those_Some_nth:
  assumes "those (map f xs) = Some ys"
  shows "length ys = length xs" and "\<forall>i<length xs. f (xs ! i) = Some (ys ! i)"
proof -
  from assms have eq: "map f xs = map Some ys" by (rule those_Some_D)
  then have "length (map f xs) = length (map Some ys)" by simp
  then show len: "length ys = length xs" by simp
  show "\<forall>i<length xs. f (xs ! i) = Some (ys ! i)"
  proof (intro allI impI)
    fix i assume "i < length xs"
    with len have "map f xs ! i = f (xs ! i)" "map Some ys ! i = Some (ys ! i)" by simp_all
    with eq show "f (xs ! i) = Some (ys ! i)" by simp
  qed
qed

lemma set_sort_items: "set (sort_items sb xs) = set xs"
  by (simp add: sort_items_def set_Array_sort)

lemma searchChargers_Inr_D:
  assumes "searchChargers H R os = Inr out"
  obtains geo hashes items where
    "geoSearchWith R ''chargers:geo'' (lng os, lat os) (dflt (radiusKm os) (Fin 30)) (dflt (limit os) (Fin 200)) = Some geo"
    "those (map (\<lambda>i. hGetAll R (''charger:'' @ i)) (map member' geo)) = Some hashes"
    "merge_items H (map member' geo) hashes geo = Inr items"
    "out = sort_items (dflt (sortBy os) ''distance'')
             (filter_items (dflt (q os) '''') (dflt (minPower os) (Fin 0)) (dflt (maxPrice os) (Fin 10)) items)"
  using assms unfolding searchChargers_def Let_def
  by (auto split: option.splits sum.splits)

lemma build_item_Inr_D:
  assumes "build_item H i h g = Inr r"
  shows "id' r = i" "name r = h ''name''" "address r = h ''address''"
    "powerKW r = Number H (hget h ''powerKW'')"
    "pricePerKWh r = Number H (hget h ''pricePerKWh'')"
    "updatedAt r = Number H (hget h ''updatedAt'')"
    "coords r = resolve_coords H h g"
    "distanceKm r = (if truthy (distance g) then Number H (distance g) else NaN)"
    "JSON_parse H (or_else (h ''amenities'') ''[]'') = Some (amenities r)"
  using assms unfolding build_item_def Let_def by (auto split: option.splits)

lemma build_item_Inl_D: "build_item H i h g = Inl e \<Longrightarrow> e = SyntaxError"
  unfolding build_item_def Let_def by (auto split: option.splits)

lemma collect_Inl_D: "collect xs = Inl e \<Longrightarrow> Inl e \<in> set xs"
  by (induction xs) (auto split: sum.splits)

lemma collect_Inl_I: "Inl e \<in> set xs \<Longrightarrow> \<exists>e'. collect xs = Inl e'"
  by (induction xs) (auto split: sum.splits)

lemma returned_item:
  assumes "searchChargers H R os = Inr out" and "r \<in> set out"
    and "geoSearchWith R ''chargers:geo'' (lng os, lat os) (dflt (radiusKm os) (Fin 30)) (dflt (limit os) (Fin 200)) = Some geo"
  shows "\<exists>i<length geo. \<exists>h. hGetAll R (''charger:'' @ member' (geo ! i)) = Some h
            \<and> build_item H (member' (geo ! i)) h (geo ! i) = Inr r
            \<and> keeps (trim (toLowerCase (dflt (q os) ''''))) (dflt (minPower os) (Fin 0)) (dflt (maxPrice os) (Fin 10)) r"
proof -
  from assms(1) obtain geo' hashes items where
    g: "geoSearchWith R ''chargers:geo'' (lng os, lat os) (dflt (radiusKm os) (Fin 30)) (dflt (limit os) (Fin 200)) = Some geo'"
    and h: "those (map (\<lambda>i. hGetAll R (''charger:'' @ i)) (map member' geo')) = Some hashes"
    and m: "merge_items H (map member' geo') hashes geo' = Inr items"
    and o: "out = sort_items (dflt (sortBy os) ''distance'')
             (filter_items (dflt (q os) '''') (dflt (minPower os) (Fin 0)) (dflt (maxPrice os) (Fin 10)) items)"
    by (rule searchChargers_Inr_D)
  from g assms(3) have [simp]: "geo' = geo" by simp
  from o assms(2) have rin: "r \<in> set (filter_items (dflt (q os) '''') (dflt (minPower os) (Fin 0)) (dflt (maxPrice os) (Fin 10)) items)"
    by (simp add: set_sort_items)
  then have ri: "r \<in> set items"
    and k: "keeps (trim (toLowerCase (dflt (q os) ''''))) (dflt (minPower os) (Fin 0)) (dflt (maxPrice os) (Fin 10)) r"
    by (auto simp: filter_items_def Let_def)
  from ri obtain i where i: "i < length items" "items ! i = r" by (auto simp: in_set_conv_nth)
  from merge_items_Inr[OF m] have len: "length items = length geo"
    and b: "\<forall>i<length geo. build_item H (map member' geo ! i) (hashes ! i) (geo ! i) = Inr (items ! i)"
    by simp_all
  from those_Some_nth[OF h] have hh: "\<forall>i<length geo. hGetAll R (''charger:'' @ member' (geo ! i)) = Some (hashes ! i)"
    by simp
  from i len b hh k show ?thesis by (intro exI[of _ i]) auto
qed

lemma those_map_total:
  "\<forall>x\<in>set xs. f x \<noteq> None \<Longrightarrow> those (map f xs) = Some (map (\<lambda>x. the (f x)) xs)"
  by (induction xs) auto

lemma merge_items_Inl_D:
  assumes "merge_items H ids hashes geo = Inl e"
  shows "e = SyntaxError"
proof -
  let ?f = "\<lambda>i. build_item H (ids ! i) (hashes ! i) (geo ! i)"
  from assms have "Inl e \<in> set (map ?f [0..<length ids])"
    unfolding merge_items_def by (rule collect_Inl_D)
  then have "Inl e \<in> ?f ` set [0..<length ids]" by (simp only: set_map)
  then obtain k where "Inl e = ?f k" by blast
  then have "build_item H (ids ! k) (hashes ! k) (geo ! k) = Inl e" by simp
  then show ?thesis by (rule build_item_Inl_D)
qed

lemma passes_keeps: "keeps (trim (toLowerCase qtext)) minP maxP c \<longleftrightarrow> passes qtext minP maxP c"
  by (simp add: keeps_iff passes_def text_matches_def includes_occurs)

lemma filter_items_passes: "filter_items qtext minP maxP items = filter (passes qtext minP maxP) items"
proof -
  have "keeps (trim (toLowerCase qtext)) minP maxP = passes qtext minP maxP"
    by (rule ext) (rule passes_keeps)
  then show ?thesis by (simp add: filter_items_def Let_def)
qed

lemma those_map_None: "x \<in> set xs \<Longrightarrow> f x = None \<Longrightarrow> those (map f xs) = None"
  by (induction xs) (auto split: option.splits)

lemma merge_items_succeeds:
  assumes "\<forall>i<length ids. JSON_parse H (or_else ((hashes ! i) ''amenities'') ''[]'') \<noteq> None"
  shows "\<exists>items. merge_items H ids hashes geo = Inr items"
proof -
  let ?f = "\<lambda>i. build_item H (ids ! i) (hashes ! i) (geo ! i)"
  have "\<not> (\<exists>e. merge_items H ids hashes geo = Inl e)"
  proof
    assume "\<exists>e. merge_items H ids hashes geo = Inl e"
    then obtain e where "collect (map ?f [0..<length ids]) = Inl e" by (auto simp: merge_items_def)
    then have "Inl e \<in> set (map ?f [0..<length ids])" by (rule collect_Inl_D)
    then have "Inl e \<in> ?f ` set [0..<length ids]" by (simp only: set_map)
    then obtain k where k: "k \<in> set [0..<length ids]" "Inl e = ?f k" by blast
    then have "k < length ids" by simp
    with assms have "JSON_parse H (or_else ((hashes ! k) ''amenities'') ''[]'') \<noteq> None" by blast
    then have "\<exists>r. build_item H (ids ! k) (hashes ! k) (geo ! k) = Inr r"
      by (auto simp: build_item_def Let_def)
    with k(2) show False by auto
  qed
  then show ?thesis by (cases "merge_items H ids hashes geo") auto
qed

lemma store_failure_rejects:
  assumes "geoSearchWith R ''chargers:geo'' (lng os, lat os) (dflt (radiusKm os) (Fin 30))
             (dflt (limit os) (Fin 200)) = Some geo"
    and "g \<in> set geo" and "hGetAll R (''charger:'' @ member' g) = None"
  shows "searchChargers H R os = Inl StoreError"
proof -
  from assms(2) have "member' g \<in> set (map member' geo)" by simp
  from those_map_None[OF this, of "\<lambda>i. hGetAll R (''charger:'' @ i)"] assms(3)
  have "those (map (\<lambda>i. hGetAll R (''charger:'' @ i)) (map member' geo)) = None" by simp
  with assms(1) show ?thesis by (simp add: searchChargers_def Let_def)
qed

lemma malformed_amenities_rejects:
  assumes "geoSearchWith R ''chargers:geo'' (lng os, lat os) (dflt (radiusKm os) (Fin 30))
             (dflt (limit os) (Fin 200)) = Some geo"
    and "\<forall>x\<in>set geo. hGetAll R (''charger:'' @ member' x) \<noteq> None"
    and "g \<in> set geo" and "hGetAll R (''charger:'' @ member' g) = Some h"
    and "h ''amenities'' = Some s" and "s \<noteq> []" and "JSON_parse H s = None"
  shows "searchChargers H R os = Inl SyntaxError"
proof -
  let ?ids = "map member' geo"
  let ?hs = "map (\<lambda>i. the (hGetAll R (''charger:'' @ i))) ?ids"
  have "\<forall>i\<in>set ?ids. hGetAll R (''charger:'' @ i) \<noteq> None" using assms(2) by auto
  then have th: "those (map (\<lambda>i. hGetAll R (''charger:'' @ i)) ?ids) = Some ?hs"
    by (rule those_map_total)
  from assms(3) obtain j where j: "j < length geo" "geo ! j = g" by (auto simp: in_set_conv_nth)
  with assms(4) have "?hs ! j = h" by simp
  with assms(5,6,7) have "build_item H (?ids ! j) (?hs ! j) (geo ! j) = Inl SyntaxError"
    by (simp add: build_item_def or_else_def Let_def)
  with j have "Inl SyntaxError \<in> set (map (\<lambda>i. build_item H (?ids ! i) (?hs ! i) (geo ! i)) [0..<length ?ids])"
    by (auto simp: image_iff intro!: bexI[of _ j])
  from collect_Inl_I[OF this] obtain e where e: "merge_items H ?ids ?hs geo = Inl e"
    by (auto simp: merge_items_def)
  then have "e = SyntaxError" by (rule merge_items_Inl_D)
  with e th assms(1) show ?thesis by (simp add: searchChargers_def Let_def)
qed

section \<open>The claims\<close>

text \<open>
  C1 (as amended). A hit whose hash is the empty record still gets a record from the merge
  stage, with \<open>name\<close>, \<open>address\<close> and \<open>status\<close> undefined, the three numeric
  fields NaN, \<open>amenities\<close> the value of \<open>JSON.parse("[]")\<close> and the coordinates of the
  index, and no error is raised for it. The record is never in the list that
  \<open>searchChargers\<close> returns: \<open>NaN >= minPower\<close> is false for every \<open>minPower\<close>, so the
  filter drops it.
\<close>

theorem missing_record_built_then_filtered:
  "(JSON_parse H ''[]'' = Some a \<longrightarrow>
      build_item H i Map.empty g =
        Inr \<lparr>id' = i, name = None, address = None, powerKW = NaN, pricePerKWh = NaN,
             status = None, amenities = a, updatedAt = NaN, coords = index_coords g,
             distanceKm = (if truthy (distance g) then Number H (distance g) else NaN)\<rparr>)
   \<and> (searchChargers H R os = Inr out
        \<and> geoSearchWith R ''chargers:geo'' (lng os, lat os) (dflt (radiusKm os) (Fin 30))
             (dflt (limit os) (Fin 200)) = Some geo
        \<and> g' \<in> set geo \<and> hGetAll R (''charger:'' @ member' g') = Some Map.empty
      \<longrightarrow> member' g' \<notin> id' ` set out)"
proof (intro conjI impI)
  assume "JSON_parse H ''[]'' = Some a"
  then show "build_item H i Map.empty g =
        Inr \<lparr>id' = i, name = None, address = None, powerKW = NaN, pricePerKWh = NaN,
             status = None, amenities = a, updatedAt = NaN, coords = index_coords g,
             distanceKm = (if truthy (distance g) then Number H (distance g) else NaN)\<rparr>"
    by (simp add: build_item_def resolve_coords_def index_coords_def hget_def or_else_def js_and_def)
next
  assume a: "searchChargers H R os = Inr out
        \<and> geoSearchWith R ''chargers:geo'' (lng os, lat os) (dflt (radiusKm os) (Fin 30))
             (dflt (limit os) (Fin 200)) = Some geo
        \<and> g' \<in> set geo \<and> hGetAll R (''charger:'' @ member' g') = Some Map.empty"
  show "member' g' \<notin> id' ` set out"
  proof
    assume "member' g' \<in> id' ` set out"
    then obtain r where r: "r \<in> set out" "id' r = member' g'" by auto
    from returned_item[of H R os out r geo] a r(1) obtain j h where
      j: "hGetAll R (''charger:'' @ member' (geo ! j)) = Some h"
         "build_item H (member' (geo ! j)) h (geo ! j) = Inr r"
         "keeps (trim (toLowerCase (dflt (q os) ''''))) (dflt (minPower os) (Fin 0)) (dflt (maxPrice os) (Fin 10)) r"
      by blast
    from build_item_Inr_D(1)[OF j(2)] r(2) have "member' (geo ! j) = member' g'" by simp
    with j(1) a have "h = Map.empty" by simp
    with build_item_Inr_D(4)[OF j(2)] have "powerKW r = NaN" by (simp add: hget_def)
    with keeps_not_NaN[OF j(3)] show False by simp
  qed
qed

text \<open>C1, at a store with one hit without a hash and three seeded chargers.\<close>

theorem missing_record_built_then_filtered_witness:
  "JSON_parse node ''[]'' = Some (JSON_array [])
   \<and> build_item node ''ghost'' Map.empty (hit ''ghost'' (JStr ''0.8'')) = Inr unseeded
   \<and> searchChargers node (store (hit ''ghost'' (JStr ''0.8'') # three_hits) seeded) plain_query = Inr [listed ''a'' ''Suntec City Carpark B1'' (Fin 60) (Fin (1/2)) (Fin 3) (Fin (3/2)),
         listed ''b'' ''ION Orchard L5 EV Bays'' (Fin 150) (Fin (11/20)) (Fin 5) (Fin (5/2)),
         listed ''c'' ''Vivocity Rooftop EV'' (Fin 120) (Fin (1/2)) (Fin 4) (Fin (17/4))]
   \<and> ''ghost'' \<notin> id' ` set [listed ''a'' ''Suntec City Carpark B1'' (Fin 60) (Fin (1/2)) (Fin 3) (Fin (3/2)),
         listed ''b'' ''ION Orchard L5 EV Bays'' (Fin 150) (Fin (11/20)) (Fin 5) (Fin (5/2)),
         listed ''c'' ''Vivocity Rooftop EV'' (Fin 120) (Fin (1/2)) (Fin 4) (Fin (17/4))]"
proof -
  let ?out = "[listed ''a'' ''Suntec City Carpark B1'' (Fin 60) (Fin (1/2)) (Fin 3) (Fin (3/2)),
         listed ''b'' ''ION Orchard L5 EV Bays'' (Fin 150) (Fin (11/20)) (Fin 5) (Fin (5/2)),
         listed ''c'' ''Vivocity Rooftop EV'' (Fin 120) (Fin (1/2)) (Fin 4) (Fin (17/4))]"
  let ?g = "hit ''ghost'' (JStr ''0.8'')"
  let ?R = "store (?g # three_hits) seeded"
  have p: "JSON_parse node ''[]'' = Some (JSON_array [])" by code_simp
  have s: "searchChargers node ?R plain_query = Inr ?out" by code_simp
  have g: "geoSearchWith ?R ''chargers:geo'' (lng plain_query, lat plain_query)
             (dflt (radiusKm plain_query) (Fin 30)) (dflt (limit plain_query) (Fin 200)) = Some (?g # three_hits)"
    by code_simp
  have m: "?g \<in> set (?g # three_hits)" by simp
  have e: "hGetAll ?R (''charger:'' @ member' ?g) = Some Map.empty" by (simp add: store_def hit_def seeded_def)
  have u: "\<lparr>id' = ''ghost'', name = None, address = None, powerKW = NaN, pricePerKWh = NaN,
             status = None, amenities = JSON_array [], updatedAt = NaN, coords = index_coords ?g,
             distanceKm = (if truthy (distance ?g) then Number node (distance ?g) else NaN)\<rparr> = unseeded"
    by code_simp
  note t = missing_record_built_then_filtered[of node "JSON_array []" "''ghost''" ?g ?R plain_query ?out "?g # three_hits" ?g]
  from t p u have b: "build_item node ''ghost'' Map.empty ?g = Inr unseeded" by simp
  from t s g m e have "member' ?g \<notin> id' ` set ?out" by blast
  then have n: "''ghost'' \<notin> id' ` set ?out" by (simp add: hit_def)
  from p b s n show ?thesis by blast
qed

text \<open>
  C1 as stated fails: the only hit of this store has no hash, and the returned list is
  empty instead of holding a record for it.
\<close>

theorem missing_record_dropped_counterexample:
  "searchChargers node (store [hit ''ghost'' (JStr ''0.8'')] []) plain_query = Inr []"
  by code_simp

text \<open>
  C2 (as amended). When the \<open>amenities\<close> field is absent or the empty string, the text
  handed to \<open>JSON.parse\<close> is \<open>"[]"\<close> and the record's \<open>amenities\<close> is the empty
  list. A non-empty field that does not parse is not recovered: \<open>JSON.parse\<close> throws
  inside the merge callback, nothing catches it, and the whole call ends with the
  SyntaxError, whatever the other records and the filters are.
\<close>

theorem amenities_default_only_when_absent:
  "((h ''amenities'' = None \<or> h ''amenities'' = Some '''') \<and> JSON_parse H ''[]'' = Some (JSON_array [])
      \<longrightarrow> (\<exists>r. build_item H i h g = Inr r \<and> amenities r = JSON_array []))
   \<and> (h ''amenities'' = Some s \<and> s \<noteq> [] \<and> JSON_parse H s = None
      \<longrightarrow> build_item H i h g = Inl SyntaxError)
   \<and> (geoSearchWith R ''chargers:geo'' (lng os, lat os) (dflt (radiusKm os) (Fin 30))
          (dflt (limit os) (Fin 200)) = Some geo
        \<and> (\<forall>x\<in>set geo. hGetAll R (''charger:'' @ member' x) \<noteq> None)
        \<and> g' \<in> set geo \<and> hGetAll R (''charger:'' @ member' g') = Some h'
        \<and> h' ''amenities'' = Some s' \<and> s' \<noteq> [] \<and> JSON_parse H s' = None
      \<longrightarrow> searchChargers H R os = Inl SyntaxError)"
proof (intro conjI impI)
  assume "(h ''amenities'' = None \<or> h ''amenities'' = Some '''') \<and> JSON_parse H ''[]'' = Some (JSON_array [])"
  then show "\<exists>r. build_item H i h g = Inr r \<and> amenities r = JSON_array []"
    by (auto simp: build_item_def or_else_def Let_def)
next
  assume "h ''amenities'' = Some s \<and> s \<noteq> [] \<and> JSON_parse H s = None"
  then show "build_item H i h g = Inl SyntaxError"
    by (simp add: build_item_def or_else_def Let_def)
next
  assume a: "geoSearchWith R ''chargers:geo'' (lng os, lat os) (dflt (radiusKm os) (Fin 30))
          (dflt (limit os) (Fin 200)) = Some geo
        \<and> (\<forall>x\<in>set geo. hGetAll R (''charger:'' @ member' x) \<noteq> None)
        \<and> g' \<in> set geo \<and> hGetAll R (''charger:'' @ member' g') = Some h'
        \<and> h' ''amenities'' = Some s' \<and> s' \<noteq> [] \<and> JSON_parse H s' = None"
  let ?ids = "map member' geo"
  let ?hs = "map (\<lambda>i. the (hGetAll R (''charger:'' @ i))) ?ids"
  have "\<forall>i\<in>set ?ids. hGetAll R (''charger:'' @ i) \<noteq> None" using a by auto
  then have th: "those (map (\<lambda>i. hGetAll R (''charger:'' @ i)) ?ids) = Some ?hs"
    by (rule those_map_total)
  from a obtain j where j: "j < length geo" "geo ! j = g'" by (auto simp: in_set_conv_nth)
  with a have "?hs ! j = h'" by simp
  with a have "build_item H (?ids ! j) (?hs ! j) (geo ! j) = Inl SyntaxError"
    by (simp add: build_item_def or_else_def Let_def)
  with j have "Inl SyntaxError \<in> set (map (\<lambda>i. build_item H (?ids ! i) (?hs ! i) (geo ! i)) [0..<length ?ids])"
    by (auto simp: image_iff intro!: bexI[of _ j])
  from collect_Inl_I[OF this] obtain e where e: "merge_items H ?ids ?hs geo = Inl e"
    by (auto simp: merge_items_def)
  then have "e = SyntaxError" by (rule merge_items_Inl_D)
  with e th a show "searchChargers H R os = Inl SyntaxError"
    by (simp add: searchChargers_def Let_def)
qed

text \<open>C2, at an empty field, at a malformed one, and at a store holding the latter.\<close>

theorem amenities_default_only_when_absent_witness:
  "JSON_parse node ''[]'' = Some (JSON_array [])
   \<and> (\<exists>r. build_item node ''a'' (map_of [(''powerKW'', ''60''), (''amenities'', '''')]) (hit ''a'' (JStr ''1.5'')) = Inr r
          \<and> amenities r = JSON_array [])
   \<and> JSON_parse node ''Mall, Food'' = None
   \<and> build_item node ''b'' (map_of (charger ''ION Orchard L5 EV Bays'' ''150'' ''0.55'' ''Mall, Food'' ''5''))
        (hit ''b'' (JStr ''2.5'')) = Inl SyntaxError
   \<and> searchChargers node (store three_hits spoiled) (plain_query\<lparr>maxPrice := Some (Fin 1)\<rparr>) = Inl SyntaxError"
proof -
  let ?h1 = "map_of [(''powerKW'', ''60''), (''amenities'', '''')]"
  let ?h2 = "map_of (charger ''ION Orchard L5 EV Bays'' ''150'' ''0.55'' ''Mall, Food'' ''5'')"
  let ?R = "store three_hits spoiled"
  let ?os = "plain_query\<lparr>maxPrice := Some (Fin 1)\<rparr>"
  let ?g = "hit ''b'' (JStr ''2.5'')"
  note t = amenities_default_only_when_absent[where h = ?h2 and H = node and s = "''Mall, Food''" and i = "''b''"
      and g = ?g and R = ?R and os = ?os and geo = three_hits and g' = ?g and h' = ?h2 and s' = "''Mall, Food''"]
  note t1 = amenities_default_only_when_absent[where h = ?h1 and H = node and i = "''a''" and g = "hit ''a'' (JStr ''1.5'')"]
  have p: "JSON_parse node ''[]'' = Some (JSON_array [])" by code_simp
  have n: "JSON_parse node ''Mall, Food'' = None" by code_simp
  have a1: "?h1 ''amenities'' = Some ''''" by simp
  have a2: "?h2 ''amenities'' = Some ''Mall, Food''" by (simp add: charger_def)
  have g: "geoSearchWith ?R ''chargers:geo'' (lng ?os, lat ?os) (dflt (radiusKm ?os) (Fin 30))
          (dflt (limit ?os) (Fin 200)) = Some three_hits" by (simp add: store_def)
  have f: "\<forall>x\<in>set three_hits. hGetAll ?R (''charger:'' @ member' x) \<noteq> None"
    by (simp add: store_def split: option.splits)
  have m: "?g \<in> set three_hits" by (simp add: three_hits_def)
  have hh: "hGetAll ?R (''charger:'' @ member' ?g) = Some ?h2"
    by (simp add: store_def hit_def spoiled_def)
  from t1 a1 p have c1: "\<exists>r. build_item node ''a'' ?h1 (hit ''a'' (JStr ''1.5'')) = Inr r \<and> amenities r = JSON_array []"
    by blast
  from t a2 n have c2: "build_item node ''b'' ?h2 ?g = Inl SyntaxError" by blast
  from t g f m hh a2 n have c3: "searchChargers node ?R ?os = Inl SyntaxError" by blast
  from p c1 n c2 c3 show ?thesis by blast
qed

text \<open>
  C2 as stated fails: charger \<open>b\<close> stores the text \<open>Mall, Food\<close>, which is not JSON,
  and the request ends with the SyntaxError instead of a list.
\<close>

theorem malformed_amenities_counterexample:
  "searchChargers node (store three_hits spoiled) plain_query = Inl SyntaxError"
  by code_simp

text \<open>
  C3. The filter stage keeps exactly the records that pass the three predicates of the
  specification: the lowercased, trimmed query text is empty or occurs in the lowercased
  name or address, \<open>powerKW >= minPower\<close>, and \<open>pricePerKWh <= maxPrice + 1e-9\<close>. With an
  empty query text the text predicate holds for every record. The list that
  \<open>searchChargers\<close> returns holds a merged record exactly when the record passes, with
  the defaults in place of the omitted options.
\<close>

theorem filter_keeps_exactly_the_passing:
  "filter_items qtext minP maxP items = filter (passes qtext minP maxP) items
   \<and> (trim (toLowerCase qtext) = [] \<longrightarrow> text_matches qtext c)
   \<and> (searchChargers H R os = Inr out
        \<and> merge_items H (map member' geo) hashes geo = Inr items'
        \<and> geoSearchWith R ''chargers:geo'' (lng os, lat os) (dflt (radiusKm os) (Fin 30))
             (dflt (limit os) (Fin 200)) = Some geo
        \<and> those (map (\<lambda>i. hGetAll R (''charger:'' @ i)) (map member' geo)) = Some hashes
      \<longrightarrow> (c \<in> set out \<longleftrightarrow>
             c \<in> set items'
             \<and> passes (dflt (q os) '''') (dflt (minPower os) (Fin 0)) (dflt (maxPrice os) (Fin 10)) c))"
proof (intro conjI impI)
  show "filter_items qtext minP maxP items = filter (passes qtext minP maxP) items"
    by (rule filter_items_passes)
next
  assume "trim (toLowerCase qtext) = []"
  then show "text_matches qtext c" by (simp add: text_matches_def)
next
  assume a: "searchChargers H R os = Inr out
        \<and> merge_items H (map member' geo) hashes geo = Inr items'
        \<and> geoSearchWith R ''chargers:geo'' (lng os, lat os) (dflt (radiusKm os) (Fin 30))
             (dflt (limit os) (Fin 200)) = Some geo
        \<and> those (map (\<lambda>i. hGetAll R (''charger:'' @ i)) (map member' geo)) = Some hashes"
  then obtain geo2 hashes2 items2 where
    "geoSearchWith R ''chargers:geo'' (lng os, lat os) (dflt (radiusKm os) (Fin 30)) (dflt (limit os) (Fin 200)) = Some geo2"
    "those (map (\<lambda>i. hGetAll R (''charger:'' @ i)) (map member' geo2)) = Some hashes2"
    "merge_items H (map member' geo2) hashes2 geo2 = Inr items2"
    "out = sort_items (dflt (sortBy os) ''distance'')
             (filter_items (dflt (q os) '''') (dflt (minPower os) (Fin 0)) (dflt (maxPrice os) (Fin 10)) items2)"
    using searchChargers_Inr_D[of H R os out] by blast
  with a have "out = sort_items (dflt (sortBy os) ''distance'')
      (filter_items (dflt (q os) '''') (dflt (minPower os) (Fin 0)) (dflt (maxPrice os) (Fin 10)) items')"
    by simp
  then show "c \<in> set out \<longleftrightarrow>
             c \<in> set items'
             \<and> passes (dflt (q os) '''') (dflt (minPower os) (Fin 0)) (dflt (maxPrice os) (Fin 10)) c"
    by (simp add: set_sort_items filter_items_passes)
qed

text \<open>C3, at a text query with a minimum power, at a blank query, and at a whole request.\<close>

theorem filter_keeps_exactly_the_passing_witness:
  "filter_items '' ION '' (Fin 100) (Fin 10) listing
     = [listed ''b'' ''ION Orchard L5 EV Bays'' (Fin 150) (Fin (11 / 20)) (Fin 5) (Fin (5 / 2))]
   \<and> filter (passes '' ION '' (Fin 100) (Fin 10)) listing
     = [listed ''b'' ''ION Orchard L5 EV Bays'' (Fin 150) (Fin (11 / 20)) (Fin 5) (Fin (5 / 2))]
   \<and> trim (toLowerCase ''  '') = []
   \<and> text_matches ''  '' unseeded
   \<and> searchChargers node (store three_hits seeded) (plain_query\<lparr>minPower := Some (Fin 100)\<rparr>)
       = Inr [listed ''b'' ''ION Orchard L5 EV Bays'' (Fin 150) (Fin (11 / 20)) (Fin 5) (Fin (5 / 2)),
              listed ''c'' ''Vivocity Rooftop EV'' (Fin 120) (Fin (1 / 2)) (Fin 4) (Fin (17 / 4))]
   \<and> passes '''' (Fin 100) (Fin 10) (listed ''c'' ''Vivocity Rooftop EV'' (Fin 120) (Fin (1 / 2)) (Fin 4) (Fin (17 / 4)))"
proof -
  let ?b = "listed ''b'' ''ION Orchard L5 EV Bays'' (Fin 150) (Fin (11 / 20)) (Fin 5) (Fin (5 / 2))"
  let ?c = "listed ''c'' ''Vivocity Rooftop EV'' (Fin 120) (Fin (1 / 2)) (Fin 4) (Fin (17 / 4))"
  let ?R = "store three_hits seeded"
  let ?os = "plain_query\<lparr>minPower := Some (Fin 100)\<rparr>"
  let ?hs = "map (\<lambda>t. map_of (snd t)) seeded"
  note t1 = filter_keeps_exactly_the_passing[where qtext = "'' ION ''" and minP = "Fin 100" and maxP = "Fin 10"
      and items = listing]
  note t2 = filter_keeps_exactly_the_passing[where qtext = "''  ''" and c = unseeded]
  note t3 = filter_keeps_exactly_the_passing[where H = node and R = ?R and os = ?os and out = "[?b, ?c]"
      and geo = three_hits and hashes = ?hs and items' = listing and c = ?c]
  have f: "filter_items '' ION '' (Fin 100) (Fin 10) listing = [?b]" by code_simp
  have e: "trim (toLowerCase ''  '') = []" by code_simp
  have s: "searchChargers node ?R ?os = Inr [?b, ?c]" by code_simp
  have m: "merge_items node (map member' three_hits) ?hs three_hits = Inr listing" by code_simp
  have g: "geoSearchWith ?R ''chargers:geo'' (lng ?os, lat ?os) (dflt (radiusKm ?os) (Fin 30))
             (dflt (limit ?os) (Fin 200)) = Some three_hits" by (simp add: store_def)
  have h: "those (map (\<lambda>i. hGetAll ?R (''charger:'' @ i)) (map member' three_hits)) = Some ?hs"
    by (simp add: store_def three_hits_def hit_def seeded_def)
  have o: "?c \<in> set [?b, ?c]" by simp
  from t1 f have c1: "filter (passes '' ION '' (Fin 100) (Fin 10)) listing = [?b]" by simp
  from t2 e have c2: "text_matches ''  '' unseeded" by blast
  from t3 s m g h o have "passes (dflt (q ?os) '''') (dflt (minPower ?os) (Fin 0)) (dflt (maxPrice ?os) (Fin 10)) ?c"
    by blast
  then have c3: "passes '''' (Fin 100) (Fin 10) ?c" by (simp add: plain_query_def dflt_def)
  from f c1 e c2 s c3 show ?thesis by blast
qed

text \<open>
  C4 (as amended). On a filtered list the sort stage returns the list unchanged for
  \<open>distance\<close>, ordered by \<open>powerKW\<close> descending for \<open>power\<close> and by \<open>pricePerKWh\<close>
  ascending for \<open>price\<close>, and, when no filtered record has a NaN \<open>updatedAt\<close>, by
  \<open>updatedAt\<close> descending for \<open>updated\<close>; in each case records with equal keys keep
  their incoming order. The filter already excludes a NaN power or price.
\<close>

theorem sort_stage_ordered_and_stable:
  assumes "fl = filter_items qtext minP maxP items"
  shows "sort_items ''distance'' fl = fl
    \<and> descending_by powerKW (sort_items ''power'' fl) \<and> stable_by powerKW fl (sort_items ''power'' fl)
    \<and> ascending_by pricePerKWh (sort_items ''price'' fl) \<and> stable_by pricePerKWh fl (sort_items ''price'' fl)
    \<and> ((\<forall>c\<in>set fl. updatedAt c \<noteq> NaN) \<longrightarrow>
           descending_by updatedAt (sort_items ''updated'' fl)
           \<and> stable_by updatedAt fl (sort_items ''updated'' fl))"
proof -
  have d: "sort_items ''distance'' fl = fl" by (simp add: sort_items_def)
  have p: "\<forall>c\<in>set fl. powerKW c \<noteq> NaN" and c: "\<forall>c\<in>set fl. pricePerKWh c \<noteq> NaN"
    using filter_items_not_NaN unfolding assms by blast+
  have pw: "descending_by powerKW (sort_items ''power'' fl) \<and> stable_by powerKW fl (sort_items ''power'' fl)"
    using Array_sort_descending[OF p, of "compareFn ''power''"]
    by (simp add: sort_items_def compareFn_def)
  have pr: "ascending_by pricePerKWh (sort_items ''price'' fl) \<and> stable_by pricePerKWh fl (sort_items ''price'' fl)"
    using Array_sort_ascending[OF c, of "compareFn ''price''"]
    by (simp add: sort_items_def compareFn_def)
  have up: "(\<forall>c\<in>set fl. updatedAt c \<noteq> NaN) \<longrightarrow>
           descending_by updatedAt (sort_items ''updated'' fl) \<and> stable_by updatedAt fl (sort_items ''updated'' fl)"
  proof
    assume u: "\<forall>c\<in>set fl. updatedAt c \<noteq> NaN"
    show "descending_by updatedAt (sort_items ''updated'' fl) \<and> stable_by updatedAt fl (sort_items ''updated'' fl)"
      using Array_sort_descending[OF u, of "compareFn ''updated''"]
      by (simp add: sort_items_def compareFn_def)
  qed
  from d pw pr up show ?thesis by blast
qed

text \<open>C4, at the three seeded records, which the filter passes.\<close>

theorem sort_stage_ordered_and_stable_witness:
  "listing = filter_items '''' (Fin 0) (Fin 10) (unseeded # listing)
   \<and> list_all (\<lambda>c. updatedAt c \<noteq> NaN) listing
   \<and> map id' (sort_items ''price'' listing) = [''a'', ''c'', ''b'']
   \<and> ascending_by pricePerKWh (sort_items ''price'' listing)
   \<and> stable_by pricePerKWh listing (sort_items ''price'' listing)
   \<and> map id' (sort_items ''updated'' listing) = [''b'', ''c'', ''a'']
   \<and> descending_by updatedAt (sort_items ''updated'' listing)
   \<and> stable_by updatedAt listing (sort_items ''updated'' listing)"
proof -
  have f: "listing = filter_items '''' (Fin 0) (Fin 10) (unseeded # listing)" by code_simp
  have a: "list_all (\<lambda>c. updatedAt c \<noteq> NaN) listing" by code_simp
  then have u: "\<forall>c\<in>set listing. updatedAt c \<noteq> NaN" by (simp only: list_all_iff)
  have s: "map id' (sort_items ''price'' listing) = [''a'', ''c'', ''b'']" by code_simp
  have i: "map id' (sort_items ''updated'' listing) = [''b'', ''c'', ''a'']" by code_simp
  from sort_stage_ordered_and_stable[OF f] f a u s i show ?thesis by blast
qed

text \<open>
  C4 as stated fails: charger \<open>b\<close> has no \<open>updatedAt\<close> field, every comparison with it
  gives NaN, which counts as equal, and the request sorted by \<open>updated\<close> returns the
  record updated at 3 before the record updated at 5.
\<close>

theorem sort_by_updated_counterexample:
  "searchChargers node (store three_hits undated) (plain_query\<lparr>sortBy := Some ''updated''\<rparr>)
     = Inr [listed ''a'' ''Suntec City Carpark B1'' (Fin 60) (Fin (1 / 2)) (Fin 3) (Fin (3 / 2)),
            listed ''b'' ''ION Orchard L5 EV Bays'' (Fin 150) (Fin (11 / 20)) NaN (Fin (5 / 2)),
            listed ''c'' ''Vivocity Rooftop EV'' (Fin 120) (Fin (1 / 2)) (Fin 5) (Fin (17 / 4))]
   \<and> \<not> descending_by updatedAt
         [listed ''a'' ''Suntec City Carpark B1'' (Fin 60) (Fin (1 / 2)) (Fin 3) (Fin (3 / 2)),
          listed ''b'' ''ION Orchard L5 EV Bays'' (Fin 150) (Fin (11 / 20)) NaN (Fin (5 / 2)),
          listed ''c'' ''Vivocity Rooftop EV'' (Fin 120) (Fin (1 / 2)) (Fin 5) (Fin (17 / 4))]
   \<and> \<not> js_ge (Fin 3) (Fin 5)"
  by code_simp

text \<open>
  C5. When every hit of the index reports a distance, a non-empty string, whose numeric
  value is non-negative and at most the radius, every returned record has as
  \<open>distanceKm\<close> the numeric value of the distance of the hit with its id, so it is
  non-negative and within the radius: merge, filter and sort leave it as the index
  reported it. A charger at the origin is reported at \<open>"0.0000"\<close> and returned at 0.
\<close>

theorem returned_distance_within_radius:
  assumes "searchChargers H R os = Inr out"
    and "geoSearchWith R ''chargers:geo'' (lng os, lat os) (dflt (radiusKm os) (Fin 30))
           (dflt (limit os) (Fin 200)) = Some geo"
    and "\<forall>g\<in>set geo. \<exists>s. distance g = JStr s \<and> s \<noteq> []
           \<and> js_le (Fin 0) (StringToNumber H s)
           \<and> js_le (StringToNumber H s) (dflt (radiusKm os) (Fin 30))"
  shows "\<forall>r\<in>set out.
           js_le (Fin 0) (distanceKm r)
           \<and> js_le (distanceKm r) (dflt (radiusKm os) (Fin 30))
           \<and> (\<exists>g\<in>set geo. id' r = member' g \<and> distanceKm r = Number H (distance g))"
proof
  fix r assume "r \<in> set out"
  from returned_item[OF assms(1) this assms(2)] obtain j h where
    j: "j < length geo" "build_item H (member' (geo ! j)) h (geo ! j) = Inr r"
    by blast
  from j(1) have m: "geo ! j \<in> set geo" by simp
  with assms(3) obtain s where s: "distance (geo ! j) = JStr s" "s \<noteq> []"
    "js_le (Fin 0) (StringToNumber H s)"
    "js_le (StringToNumber H s) (dflt (radiusKm os) (Fin 30))"
    by blast
  from build_item_Inr_D(8)[OF j(2)] s(1,2) have d: "distanceKm r = Number H (distance (geo ! j))" by simp
  from build_item_Inr_D(1)[OF j(2)] have i: "id' r = member' (geo ! j)" .
  from d i s m show "js_le (Fin 0) (distanceKm r)
           \<and> js_le (distanceKm r) (dflt (radiusKm os) (Fin 30))
           \<and> (\<exists>g\<in>set geo. id' r = member' g \<and> distanceKm r = Number H (distance g))"
    by auto
qed

text \<open>C5, at a charger at the origin and one at 2.5 km, sorted by power.\<close>

theorem returned_distance_within_radius_witness:
  "searchChargers node (store origin_hits seeded) (plain_query\<lparr>sortBy := Some ''power''\<rparr>)
     = Inr [listed ''b'' ''ION Orchard L5 EV Bays'' (Fin 150) (Fin (11 / 20)) (Fin 5) (Fin (5 / 2)),
            listed ''a'' ''Suntec City Carpark B1'' (Fin 60) (Fin (1 / 2)) (Fin 3) (Fin 0)]
   \<and> list_all (\<lambda>g. \<exists>s. distance g = JStr s \<and> s \<noteq> []
           \<and> js_le (Fin 0) (StringToNumber node s)
           \<and> js_le (StringToNumber node s) (Fin 30)) origin_hits
   \<and> list_all (\<lambda>r. js_le (Fin 0) (distanceKm r) \<and> js_le (distanceKm r) (Fin 30)
         \<and> (\<exists>g\<in>set origin_hits. id' r = member' g \<and> distanceKm r = Number node (distance g)))
        [listed ''b'' ''ION Orchard L5 EV Bays'' (Fin 150) (Fin (11 / 20)) (Fin 5) (Fin (5 / 2)),
         listed ''a'' ''Suntec City Carpark B1'' (Fin 60) (Fin (1 / 2)) (Fin 3) (Fin 0)]"
proof -
  let ?R = "store origin_hits seeded"
  let ?os = "plain_query\<lparr>sortBy := Some ''power''\<rparr>"
  let ?out = "[listed ''b'' ''ION Orchard L5 EV Bays'' (Fin 150) (Fin (11 / 20)) (Fin 5) (Fin (5 / 2)),
            listed ''a'' ''Suntec City Carpark B1'' (Fin 60) (Fin (1 / 2)) (Fin 3) (Fin 0)]"
  have r: "dflt (radiusKm ?os) (Fin 30) = Fin 30" by (simp add: plain_query_def dflt_def)
  have s: "searchChargers node ?R ?os = Inr ?out" by code_simp
  have g: "geoSearchWith ?R ''chargers:geo'' (lng ?os, lat ?os) (dflt (radiusKm ?os) (Fin 30))
             (dflt (limit ?os) (Fin 200)) = Some origin_hits" by (simp add: store_def)
  have n0: "js_le (Fin 0) (StringToNumber node ''0.0000'') \<and> js_le (StringToNumber node ''0.0000'') (Fin 30)"
    by code_simp
  have n1: "js_le (Fin 0) (StringToNumber node ''2.5'') \<and> js_le (StringToNumber node ''2.5'') (Fin 30)"
    by code_simp
  have d: "\<forall>g\<in>set origin_hits. \<exists>s. distance g = JStr s \<and> s \<noteq> []
           \<and> js_le (Fin 0) (StringToNumber node s)
           \<and> js_le (StringToNumber node s) (Fin 30)"
    using n0 n1 by (simp add: origin_hits_def hit_def)
  then have a: "list_all (\<lambda>g. \<exists>s. distance g = JStr s \<and> s \<noteq> []
           \<and> js_le (Fin 0) (StringToNumber node s)
           \<and> js_le (StringToNumber node s) (Fin 30)) origin_hits"
    by (simp only: list_all_iff)
  from d r have d': "\<forall>g\<in>set origin_hits. \<exists>s. distance g = JStr s \<and> s \<noteq> []
           \<and> js_le (Fin 0) (StringToNumber node s)
           \<and> js_le (StringToNumber node s) (dflt (radiusKm ?os) (Fin 30))" by simp
  from returned_distance_within_radius[OF s g d'] r
  have c: "list_all (\<lambda>r. js_le (Fin 0) (distanceKm r) \<and> js_le (distanceKm r) (Fin 30)
         \<and> (\<exists>g\<in>set origin_hits. id' r = member' g \<and> distanceKm r = Number node (distance g))) ?out"
    by (simp only: list_all_iff)
  from s a c show ?thesis by blast
qed

text \<open>
  C6 (as amended). For every sequence of hits and every sequence of hashes of the same
  length in which each \<open>amenities\<close> field is absent, empty or parses, the merge stage
  gives a list as long as the hits whose i-th record is built from the i-th hit and the
  i-th hash: it has the member of that hit as id and its distance.
\<close>

theorem merge_keeps_length_and_order:
  assumes "length hashes = length geo"
    and "\<forall>i<length geo. JSON_parse H (or_else ((hashes ! i) ''amenities'') ''[]'') \<noteq> None"
  shows "\<exists>items. merge_items H (map member' geo) hashes geo = Inr items
           \<and> length items = length geo
           \<and> (\<forall>i<length geo.
                 build_item H (member' (geo ! i)) (hashes ! i) (geo ! i) = Inr (items ! i)
                 \<and> id' (items ! i) = member' (geo ! i)
                 \<and> distanceKm (items ! i)
                     = (if truthy (distance (geo ! i)) then Number H (distance (geo ! i)) else NaN))"
proof -
  let ?ids = "map member' geo"
  let ?f = "\<lambda>i. build_item H (?ids ! i) (hashes ! i) (geo ! i)"
  have no_err: "\<not> (\<exists>e. merge_items H ?ids hashes geo = Inl e)"
  proof
    assume "\<exists>e. merge_items H ?ids hashes geo = Inl e"
    then obtain e where "collect (map ?f [0..<length ?ids]) = Inl e" by (auto simp: merge_items_def)
    then have "Inl e \<in> set (map ?f [0..<length ?ids])" by (rule collect_Inl_D)
    then have "Inl e \<in> ?f ` set [0..<length ?ids]" by (simp only: set_map)
    then obtain k where k: "k \<in> set [0..<length ?ids]" "Inl e = ?f k" by blast
    then have "k < length geo" by simp
    with assms(2) have "JSON_parse H (or_else ((hashes ! k) ''amenities'') ''[]'') \<noteq> None" by blast
    then have "\<exists>r. build_item H (?ids ! k) (hashes ! k) (geo ! k) = Inr r"
      by (auto simp: build_item_def Let_def)
    with k(2) show False by auto
  qed
  then obtain items where m: "merge_items H ?ids hashes geo = Inr items"
    by (cases "merge_items H ?ids hashes geo") auto
  from merge_items_Inr[OF m] have len: "length items = length geo"
    and b: "\<forall>i<length geo. build_item H (member' (geo ! i)) (hashes ! i) (geo ! i) = Inr (items ! i)"
    by simp_all
  have "\<forall>i<length geo.
          build_item H (member' (geo ! i)) (hashes ! i) (geo ! i) = Inr (items ! i)
          \<and> id' (items ! i) = member' (geo ! i)
          \<and> distanceKm (items ! i)
              = (if truthy (distance (geo ! i)) then Number H (distance (geo ! i)) else NaN)"
  proof (intro allI impI)
    fix i assume "i < length geo"
    with b have bi: "build_item H (member' (geo ! i)) (hashes ! i) (geo ! i) = Inr (items ! i)" by blast
    from bi build_item_Inr_D(1)[OF bi] build_item_Inr_D(8)[OF bi]
    show "build_item H (member' (geo ! i)) (hashes ! i) (geo ! i) = Inr (items ! i)
          \<and> id' (items ! i) = member' (geo ! i)
          \<and> distanceKm (items ! i)
              = (if truthy (distance (geo ! i)) then Number H (distance (geo ! i)) else NaN)"
      by blast
  qed
  with m len show ?thesis by blast
qed

text \<open>C6, at the three seeded chargers.\<close>

theorem merge_keeps_length_and_order_witness:
  "length (map (\<lambda>t. map_of (snd t)) seeded) = length three_hits
   \<and> list_all (\<lambda>h. JSON_parse node (or_else (h ''amenities'') ''[]'') \<noteq> None)
        (map (\<lambda>t. map_of (snd t)) seeded)
   \<and> (\<exists>items. merge_items node (map member' three_hits) (map (\<lambda>t. map_of (snd t)) seeded) three_hits = Inr items
         \<and> length items = length three_hits
         \<and> (\<forall>i<length three_hits.
               build_item node (member' (three_hits ! i)) (map (\<lambda>t. map_of (snd t)) seeded ! i) (three_hits ! i)
                 = Inr (items ! i)
               \<and> id' (items ! i) = member' (three_hits ! i)
               \<and> distanceKm (items ! i)
                   = (if truthy (distance (three_hits ! i)) then Number node (distance (three_hits ! i)) else NaN)))"
proof -
  let ?hs = "map (\<lambda>t. map_of (snd t)) seeded"
  have l: "length ?hs = length three_hits" by (simp add: seeded_def three_hits_def)
  have a: "list_all (\<lambda>h. JSON_parse node (or_else (h ''amenities'') ''[]'') \<noteq> None) ?hs"
    by code_simp
  then have "\<forall>i<length ?hs. JSON_parse node (or_else ((?hs ! i) ''amenities'') ''[]'') \<noteq> None"
    by (simp only: list_all_length)
  with l have p: "\<forall>i<length three_hits. JSON_parse node (or_else ((?hs ! i) ''amenities'') ''[]'') \<noteq> None"
    by simp
  from merge_keeps_length_and_order[OF l p] l a show ?thesis by blast
qed

text \<open>
  C6 as stated fails: with an \<open>amenities\<close> field that is not JSON in the second hash
  the merge stage gives no list at all, it ends with the SyntaxError.
\<close>

theorem merge_throws_counterexample:
  "merge_items node [''a'', ''b'']
     [map_of (charger ''Suntec City Carpark B1'' ''60'' ''0.5'' ''[]'' ''3''),
      map_of (charger ''ION Orchard L5 EV Bays'' ''150'' ''0.55'' ''[Mall'' ''5'')]
     [hit ''a'' (JStr ''1.5''), hit ''b'' (JStr ''2.5'')]
   = Inl SyntaxError"
  by code_simp

text \<open>
  C7. The coordinates of a merged record: when the hash stores both \<open>lat\<close> and
  \<open>lng\<close> they are the two stored values coerced to numbers; otherwise, when the hit
  echoes coordinates, they are those of the hit; otherwise they are undefined.
\<close>

theorem coords_prefer_hash_then_index:
  assumes "build_item H i h g = Inr r"
  shows "(stored h ''lat'' \<and> stored h ''lng'' \<longrightarrow>
            (\<exists>a b. h ''lat'' = Some a \<and> h ''lng'' = Some b
               \<and> coords r = Some \<lparr>coords_lat = JNumber (StringToNumber H a),
                                   coords_lng = JNumber (StringToNumber H b)\<rparr>))
    \<and> (\<not> (stored h ''lat'' \<and> stored h ''lng'') \<and> coordinates g = Some c \<longrightarrow>
            coords r = Some \<lparr>coords_lat = latitude c, coords_lng = longitude c\<rparr>)
    \<and> (\<not> (stored h ''lat'' \<and> stored h ''lng'') \<and> coordinates g = None \<longrightarrow> coords r = None)"
proof -
  have c: "coords r = resolve_coords H h g" using assms by (rule build_item_Inr_D(7))
  have t: "truthy (js_and (hget h ''lat'') (hget h ''lng'')) \<longleftrightarrow> stored h ''lat'' \<and> stored h ''lng''"
    by (auto simp: js_and_def hget_def stored_def split: option.splits)
  show ?thesis
    unfolding c resolve_coords_def t
    by (auto simp: stored_def hget_def split: option.splits)
qed

text \<open>C7, at a hash with coordinates, at a hash without, and at a hit without an echo.\<close>

theorem coords_prefer_hash_then_index_witness:
  "build_item node ''a'' located (hit ''a'' (JStr ''1.5''))
     = Inr ((listed ''a'' ''Suntec City Carpark B1'' (Fin 60) (Fin (1 / 2)) (Fin 3) (Fin (3 / 2)))
             \<lparr>coords := Some \<lparr>coords_lat = JNumber (Fin 1.29), coords_lng = JNumber (Fin 103.9)\<rparr>\<rparr>)
   \<and> stored located ''lat'' \<and> stored located ''lng''
   \<and> (\<exists>a b. located ''lat'' = Some a \<and> located ''lng'' = Some b
         \<and> Some \<lparr>coords_lat = JNumber (Fin 1.29), coords_lng = JNumber (Fin 103.9)\<rparr>
             = Some \<lparr>coords_lat = JNumber (StringToNumber node a), coords_lng = JNumber (StringToNumber node b)\<rparr>)
   \<and> build_item node ''ghost'' Map.empty (hit ''ghost'' (JStr ''0.8'')) = Inr unseeded
   \<and> \<not> (stored Map.empty ''lat'' \<and> stored Map.empty ''lng'')
   \<and> coords unseeded = Some \<lparr>coords_lat = JStr ''1.304'', coords_lng = JStr ''103.8318''\<rparr>
   \<and> build_item node ''ghost'' Map.empty \<lparr>member' = ''ghost'', distance = JStr ''0.8'', coordinates = None\<rparr>
       = Inr (unseeded\<lparr>coords := None\<rparr>)"
proof -
  let ?a = "(listed ''a'' ''Suntec City Carpark B1'' (Fin 60) (Fin (1 / 2)) (Fin 3) (Fin (3 / 2)))
             \<lparr>coords := Some \<lparr>coords_lat = JNumber (Fin 1.29), coords_lng = JNumber (Fin 103.9)\<rparr>\<rparr>"
  let ?g = "hit ''ghost'' (JStr ''0.8'')"
  let ?n = "\<lparr>member' = ''ghost'', distance = JStr ''0.8'', coordinates = None\<rparr>"
  let ?c = "\<lparr>longitude = JStr ''103.8318'', latitude = JStr ''1.304''\<rparr>"
  have b1: "build_item node ''a'' located (hit ''a'' (JStr ''1.5'')) = Inr ?a" by code_simp
  have s1: "stored located ''lat'' \<and> stored located ''lng''" by code_simp
  have b2: "build_item node ''ghost'' Map.empty ?g = Inr unseeded" by code_simp
  have s2: "\<not> (stored Map.empty ''lat'' \<and> stored Map.empty ''lng'')" by (simp add: stored_def)
  have g2: "coordinates ?g = Some ?c" by (simp add: hit_def)
  have b3: "build_item node ''ghost'' Map.empty ?n = Inr (unseeded\<lparr>coords := None\<rparr>)" by code_simp
  have g3: "coordinates ?n = None" by simp
  have ca: "coords ?a = Some \<lparr>coords_lat = JNumber (Fin 1.29), coords_lng = JNumber (Fin 103.9)\<rparr>" by simp
  from coords_prefer_hash_then_index[OF b1] s1 ca
  have c1: "\<exists>a b. located ''lat'' = Some a \<and> located ''lng'' = Some b
         \<and> Some \<lparr>coords_lat = JNumber (Fin 1.29), coords_lng = JNumber (Fin 103.9)\<rparr>
             = Some \<lparr>coords_lat = JNumber (StringToNumber node a), coords_lng = JNumber (StringToNumber node b)\<rparr>"
    by simp
  from coords_prefer_hash_then_index[OF b2, where c = ?c] s2 g2
  have c2: "coords unseeded = Some \<lparr>coords_lat = JStr ''1.304'', coords_lng = JStr ''103.8318''\<rparr>"
    by simp
  from coords_prefer_hash_then_index[OF b3] s2 g3 have "coords (unseeded\<lparr>coords := None\<rparr>) = None" by blast
  from b1 s1 c1 b2 s2 c2 b3 show ?thesis by blast
qed

text \<open>
  C8 (as amended). When the index returns no hit, \<open>searchChargers\<close> returns the empty
  list and no error. When it returns hits, every \<open>hGetAll\<close> succeeds, every
  \<open>amenities\<close> field is absent, empty or parses, and no record built from a hit passes
  the filter, it returns the empty list as well. A rejected \<open>hGetAll\<close> ends the call
  with the error of the store and an \<open>amenities\<close> field that does not parse ends it
  with the SyntaxError, whether or not any record could pass the filter.
\<close>

theorem no_match_gives_empty_list_or_error:
  "(geoSearchWith R ''chargers:geo'' (lng os, lat os) (dflt (radiusKm os) (Fin 30))
        (dflt (limit os) (Fin 200)) = Some []
      \<longrightarrow> searchChargers H R os = Inr [])
   \<and> (geoSearchWith R ''chargers:geo'' (lng os, lat os) (dflt (radiusKm os) (Fin 30))
          (dflt (limit os) (Fin 200)) = Some geo
        \<and> those (map (\<lambda>i. hGetAll R (''charger:'' @ i)) (map member' geo)) = Some hashes
        \<and> (\<forall>i<length geo. JSON_parse H (or_else ((hashes ! i) ''amenities'') ''[]'') \<noteq> None)
        \<and> (\<forall>i<length geo. \<forall>r. build_item H (member' (geo ! i)) (hashes ! i) (geo ! i) = Inr r
              \<longrightarrow> \<not> passes (dflt (q os) '''') (dflt (minPower os) (Fin 0)) (dflt (maxPrice os) (Fin 10)) r)
      \<longrightarrow> searchChargers H R os = Inr [])
   \<and> (geoSearchWith R ''chargers:geo'' (lng os, lat os) (dflt (radiusKm os) (Fin 30))
          (dflt (limit os) (Fin 200)) = Some geo
        \<and> g \<in> set geo \<and> hGetAll R (''charger:'' @ member' g) = None
      \<longrightarrow> searchChargers H R os = Inl StoreError)
   \<and> (geoSearchWith R ''chargers:geo'' (lng os, lat os) (dflt (radiusKm os) (Fin 30))
          (dflt (limit os) (Fin 200)) = Some geo
        \<and> (\<forall>x\<in>set geo. hGetAll R (''charger:'' @ member' x) \<noteq> None)
        \<and> g \<in> set geo \<and> hGetAll R (''charger:'' @ member' g) = Some h
        \<and> h ''amenities'' = Some s \<and> s \<noteq> [] \<and> JSON_parse H s = None
      \<longrightarrow> searchChargers H R os = Inl SyntaxError)"
proof (intro conjI impI)
  assume "geoSearchWith R ''chargers:geo'' (lng os, lat os) (dflt (radiusKm os) (Fin 30))
        (dflt (limit os) (Fin 200)) = Some []"
  then show "searchChargers H R os = Inr []"
    by (simp add: searchChargers_def Let_def merge_items_def filter_items_def sort_items_def)
next
  assume a: "geoSearchWith R ''chargers:geo'' (lng os, lat os) (dflt (radiusKm os) (Fin 30))
          (dflt (limit os) (Fin 200)) = Some geo
        \<and> those (map (\<lambda>i. hGetAll R (''charger:'' @ i)) (map member' geo)) = Some hashes
        \<and> (\<forall>i<length geo. JSON_parse H (or_else ((hashes ! i) ''amenities'') ''[]'') \<noteq> None)
        \<and> (\<forall>i<length geo. \<forall>r. build_item H (member' (geo ! i)) (hashes ! i) (geo ! i) = Inr r
              \<longrightarrow> \<not> passes (dflt (q os) '''') (dflt (minPower os) (Fin 0)) (dflt (maxPrice os) (Fin 10)) r)"
  then have "\<forall>i<length (map member' geo). JSON_parse H (or_else ((hashes ! i) ''amenities'') ''[]'') \<noteq> None"
    by simp
  from merge_items_succeeds[OF this] obtain items where
    m: "merge_items H (map member' geo) hashes geo = Inr items" by blast
  from merge_items_Inr[OF m] have len: "length items = length geo"
    and b: "\<forall>i<length geo. build_item H (member' (geo ! i)) (hashes ! i) (geo ! i) = Inr (items ! i)"
    by simp_all
  have "\<forall>c\<in>set items. \<not> passes (dflt (q os) '''') (dflt (minPower os) (Fin 0)) (dflt (maxPrice os) (Fin 10)) c"
  proof
    fix c assume "c \<in> set items"
    then obtain i where i: "i < length items" "items ! i = c" by (auto simp: in_set_conv_nth)
    with len b have "build_item H (member' (geo ! i)) (hashes ! i) (geo ! i) = Inr c" by auto
    with a i(1) len show "\<not> passes (dflt (q os) '''') (dflt (minPower os) (Fin 0)) (dflt (maxPrice os) (Fin 10)) c"
      by auto
  qed
  then have "filter_items (dflt (q os) '''') (dflt (minPower os) (Fin 0)) (dflt (maxPrice os) (Fin 10)) items = []"
    by (simp add: filter_items_passes filter_empty_conv)
  then have "sort_items (dflt (sortBy os) ''distance'')
      (filter_items (dflt (q os) '''') (dflt (minPower os) (Fin 0)) (dflt (maxPrice os) (Fin 10)) items) = []"
    by (simp add: sort_items_def)
  with a m show "searchChargers H R os = Inr []"
    by (simp add: searchChargers_def Let_def)
next
  assume "geoSearchWith R ''chargers:geo'' (lng os, lat os) (dflt (radiusKm os) (Fin 30))
          (dflt (limit os) (Fin 200)) = Some geo
        \<and> g \<in> set geo \<and> hGetAll R (''charger:'' @ member' g) = None"
  then show "searchChargers H R os = Inl StoreError"
    using store_failure_rejects[of R os geo g H] by blast
next
  assume "geoSearchWith R ''chargers:geo'' (lng os, lat os) (dflt (radiusKm os) (Fin 30))
          (dflt (limit os) (Fin 200)) = Some geo
        \<and> (\<forall>x\<in>set geo. hGetAll R (''charger:'' @ member' x) \<noteq> None)
        \<and> g \<in> set geo \<and> hGetAll R (''charger:'' @ member' g) = Some h
        \<and> h ''amenities'' = Some s \<and> s \<noteq> [] \<and> JSON_parse H s = None"
  then show "searchChargers H R os = Inl SyntaxError"
    using malformed_amenities_rejects[of R os geo g h s H] by blast
qed

text \<open>C8, at an empty index, at a minimum power above every seeded charger, at a store that rejects \<open>hGetAll\<close>, and at a field that is not JSON.\<close>

theorem no_match_gives_empty_list_or_error_witness:
  "geoSearchWith (store [] seeded) ''chargers:geo'' (lng plain_query, lat plain_query)
       (dflt (radiusKm plain_query) (Fin 30)) (dflt (limit plain_query) (Fin 200)) = Some []
   \<and> searchChargers node (store [] seeded) plain_query = Inr []
   \<and> list_all (\<lambda>h. JSON_parse node (or_else (h ''amenities'') ''[]'') \<noteq> None)
        (map (\<lambda>t. map_of (snd t)) seeded)
   \<and> merge_items node (map member' three_hits) (map (\<lambda>t. map_of (snd t)) seeded) three_hits = Inr listing
   \<and> list_all (\<lambda>c. \<not> passes '''' (Fin 300) (Fin 10) c) listing
   \<and> searchChargers node (store three_hits seeded) (plain_query\<lparr>minPower := Some (Fin 300)\<rparr>) = Inr []
   \<and> hGetAll (unreachable three_hits) (''charger:'' @ member' (hit ''a'' (JStr ''1.5''))) = None
   \<and> searchChargers node (unreachable three_hits) (plain_query\<lparr>minPower := Some (Fin 300)\<rparr>) = Inl StoreError
   \<and> JSON_parse node ''Mall, Food'' = None
   \<and> searchChargers node (store three_hits spoiled) (plain_query\<lparr>q := Some ''tuas''\<rparr>) = Inl SyntaxError"
proof -
  let ?R = "store three_hits seeded"
  let ?os = "plain_query\<lparr>minPower := Some (Fin 300)\<rparr>"
  let ?qs = "plain_query\<lparr>q := Some ''tuas''\<rparr>"
  let ?hs = "map (\<lambda>t. map_of (snd t)) seeded"
  let ?ga = "hit ''a'' (JStr ''1.5'')"
  let ?gb = "hit ''b'' (JStr ''2.5'')"
  let ?hb = "map_of (charger ''ION Orchard L5 EV Bays'' ''150'' ''0.55'' ''Mall, Food'' ''5'')"
  have g0: "geoSearchWith (store [] seeded) ''chargers:geo'' (lng plain_query, lat plain_query)
       (dflt (radiusKm plain_query) (Fin 30)) (dflt (limit plain_query) (Fin 200)) = Some []"
    by (simp add: store_def)
  have g1: "geoSearchWith ?R ''chargers:geo'' (lng ?os, lat ?os) (dflt (radiusKm ?os) (Fin 30))
       (dflt (limit ?os) (Fin 200)) = Some three_hits"
    by (simp add: store_def)
  have h: "those (map (\<lambda>i. hGetAll ?R (''charger:'' @ i)) (map member' three_hits)) = Some ?hs"
    by (simp add: store_def three_hits_def hit_def seeded_def)
  have l: "length ?hs = length three_hits" by (simp add: seeded_def three_hits_def)
  have pa: "list_all (\<lambda>h. JSON_parse node (or_else (h ''amenities'') ''[]'') \<noteq> None) ?hs"
    by code_simp
  then have "\<forall>i<length ?hs. JSON_parse node (or_else ((?hs ! i) ''amenities'') ''[]'') \<noteq> None"
    by (simp only: list_all_length)
  with l have p: "\<forall>i<length three_hits. JSON_parse node (or_else ((?hs ! i) ''amenities'') ''[]'') \<noteq> None"
    by simp
  have m: "merge_items node (map member' three_hits) ?hs three_hits = Inr listing" by code_simp
  have "list_all (\<lambda>c. \<not> keeps (trim (toLowerCase '''')) (Fin 300) (Fin 10) c) listing" by code_simp
  then have a: "list_all (\<lambda>c. \<not> passes '''' (Fin 300) (Fin 10) c) listing" by (simp only: passes_keeps)
  then have n: "\<forall>c\<in>set listing. \<not> passes '''' (Fin 300) (Fin 10) c" by (simp only: list_all_iff)
  have ll: "length listing = length three_hits" by (simp add: listing_def three_hits_def)
  have n': "\<forall>i<length three_hits. \<forall>r. build_item node (member' (three_hits ! i)) (?hs ! i) (three_hits ! i) = Inr r
              \<longrightarrow> \<not> passes (dflt (q ?os) '''') (dflt (minPower ?os) (Fin 0)) (dflt (maxPrice ?os) (Fin 10)) r"
  proof (intro allI impI)
    fix i r assume i: "i < length three_hits"
      and b: "build_item node (member' (three_hits ! i)) (?hs ! i) (three_hits ! i) = Inr r"
    from merge_items_Inr(2)[OF m] i have "build_item node (member' (three_hits ! i)) (?hs ! i) (three_hits ! i) = Inr (listing ! i)"
      by simp
    with b have "r = listing ! i" by simp
    with i ll have "r \<in> set listing" by simp
    with n have "\<not> passes '''' (Fin 300) (Fin 10) r" by blast
    then show "\<not> passes (dflt (q ?os) '''') (dflt (minPower ?os) (Fin 0)) (dflt (maxPrice ?os) (Fin 10)) r"
      by (simp add: plain_query_def dflt_def)
  qed
  have g2: "geoSearchWith (unreachable three_hits) ''chargers:geo'' (lng ?os, lat ?os) (dflt (radiusKm ?os) (Fin 30))
       (dflt (limit ?os) (Fin 200)) = Some three_hits"
    by (simp add: unreachable_def)
  have ma: "?ga \<in> set three_hits" by (simp add: three_hits_def)
  have u: "hGetAll (unreachable three_hits) (''charger:'' @ member' ?ga) = None"
    by (simp add: unreachable_def)
  have g3: "geoSearchWith (store three_hits spoiled) ''chargers:geo'' (lng ?qs, lat ?qs) (dflt (radiusKm ?qs) (Fin 30))
       (dflt (limit ?qs) (Fin 200)) = Some three_hits"
    by (simp add: store_def)
  have f3: "\<forall>x\<in>set three_hits. hGetAll (store three_hits spoiled) (''charger:'' @ member' x) \<noteq> None"
    by (simp add: store_def split: option.splits)
  have mb: "?gb \<in> set three_hits" by (simp add: three_hits_def)
  have hb: "hGetAll (store three_hits spoiled) (''charger:'' @ member' ?gb) = Some ?hb"
    by (simp add: store_def hit_def spoiled_def)
  have ab: "?hb ''amenities'' = Some ''Mall, Food''" by (simp add: charger_def)
  have nb: "JSON_parse node ''Mall, Food'' = None" by code_simp
  note t0 = no_match_gives_empty_list_or_error[where R = "store [] seeded" and os = plain_query and H = node]
  note t1 = no_match_gives_empty_list_or_error[where R = ?R and os = ?os and H = node and geo = three_hits
      and hashes = ?hs]
  note t2 = no_match_gives_empty_list_or_error[where R = "unreachable three_hits" and os = ?os and H = node
      and geo = three_hits and g = ?ga]
  note t3 = no_match_gives_empty_list_or_error[where R = "store three_hits spoiled" and os = ?qs and H = node
      and geo = three_hits and g = ?gb and h = ?hb and s = "''Mall, Food''"]
  from t0 g0 have c0: "searchChargers node (store [] seeded) plain_query = Inr []" by blast
  from t1 g1 h p n' have c1: "searchChargers node ?R ?os = Inr []" by blast
  from t2 g2 ma u have c2: "searchChargers node (unreachable three_hits) ?os = Inl StoreError" by blast
  from t3 g3 f3 mb hb ab nb have c3: "searchChargers node (store three_hits spoiled) ?qs = Inl SyntaxError" by blast
  from g0 c0 pa m a c1 u c2 nb c3 show ?thesis by blast
qed

text \<open>
  C8 as stated fails: no charger of this store has a power of 300 or more, so no
  record can pass the filter, and the request ends with the SyntaxError of charger
  \<open>b\<close> instead of the empty list.
\<close>

theorem no_match_raises_counterexample:
  "searchChargers node (store three_hits spoiled) (plain_query\<lparr>minPower := Some (Fin 300)\<rparr>)
     = Inl SyntaxError
   \<and> list_all (\<lambda>p. \<not> js_ge (StringToNumber node p) (Fin 300)) [''60'', ''150'', ''120'']"
  by code_simp

text \<open>
  C9. A call with every optional parameter omitted is the call with \<open>radiusKm = 30\<close>,
  \<open>limit = 200\<close>, \<open>minPower = 0\<close>, \<open>maxPrice = 10\<close>, \<open>q = ""\<close> and
  \<open>sortBy = "distance"\<close>; and whenever \<open>maxPrice\<close> is omitted every returned record
  has a price of at most \<open>10 + 1e-9\<close>.
\<close>

theorem omitted_options_take_defaults:
  "searchChargers H R \<lparr>lat = la, lng = lo, radiusKm = None, limit = None, minPower = None,
                        maxPrice = None, q = None, sortBy = None\<rparr>
     = searchChargers H R \<lparr>lat = la, lng = lo, radiusKm = Some (Fin 30), limit = Some (Fin 200),
                            minPower = Some (Fin 0), maxPrice = Some (Fin 10), q = Some '''',
                            sortBy = Some ''distance''\<rparr>
   \<and> (maxPrice os = None \<and> searchChargers H R os = Inr out
      \<longrightarrow> (\<forall>r\<in>set out. js_le (pricePerKWh r) (Fin (10 + 1 / 10 ^ 9))))"
proof (intro conjI impI)
  show "searchChargers H R \<lparr>lat = la, lng = lo, radiusKm = None, limit = None, minPower = None,
                        maxPrice = None, q = None, sortBy = None\<rparr>
     = searchChargers H R \<lparr>lat = la, lng = lo, radiusKm = Some (Fin 30), limit = Some (Fin 200),
                            minPower = Some (Fin 0), maxPrice = Some (Fin 10), q = Some '''',
                            sortBy = Some ''distance''\<rparr>"
    by (simp add: searchChargers_def dflt_def)
next
  assume a: "maxPrice os = None \<and> searchChargers H R os = Inr out"
  show "\<forall>r\<in>set out. js_le (pricePerKWh r) (Fin (10 + 1 / 10 ^ 9))"
  proof
    fix r assume r: "r \<in> set out"
    from a obtain geo hashes items where
      o: "out = sort_items (dflt (sortBy os) ''distance'')
             (filter_items (dflt (q os) '''') (dflt (minPower os) (Fin 0)) (dflt (maxPrice os) (Fin 10)) items)"
      using searchChargers_Inr_D[of H R os out] by blast
    with r have "passes (dflt (q os) '''') (dflt (minPower os) (Fin 0)) (dflt (maxPrice os) (Fin 10)) r"
      by (simp add: set_sort_items filter_items_passes)
    with a show "js_le (pricePerKWh r) (Fin (10 + 1 / 10 ^ 9))"
      by (simp add: passes_def dflt_def)
  qed
qed

text \<open>C9, at a store in which charger \<open>b\<close> costs 12.\<close>

theorem omitted_options_take_defaults_witness:
  "maxPrice plain_query = None
   \<and> searchChargers node (store three_hits pricey) plain_query
       = Inr [listed ''a'' ''Suntec City Carpark B1'' (Fin 60) (Fin (1 / 2)) (Fin 3) (Fin (3 / 2)),
              listed ''c'' ''Vivocity Rooftop EV'' (Fin 120) (Fin (1 / 2)) (Fin 4) (Fin (17 / 4))]
   \<and> searchChargers node (store three_hits pricey)
        \<lparr>lat = Fin 1.3521, lng = Fin 103.8198, radiusKm = Some (Fin 30), limit = Some (Fin 200),
         minPower = Some (Fin 0), maxPrice = Some (Fin 10), q = Some '''', sortBy = Some ''distance''\<rparr>
       = Inr [listed ''a'' ''Suntec City Carpark B1'' (Fin 60) (Fin (1 / 2)) (Fin 3) (Fin (3 / 2)),
              listed ''c'' ''Vivocity Rooftop EV'' (Fin 120) (Fin (1 / 2)) (Fin 4) (Fin (17 / 4))]
   \<and> list_all (\<lambda>r. js_le (pricePerKWh r) (Fin (10 + 1 / 10 ^ 9)))
        [listed ''a'' ''Suntec City Carpark B1'' (Fin 60) (Fin (1 / 2)) (Fin 3) (Fin (3 / 2)),
         listed ''c'' ''Vivocity Rooftop EV'' (Fin 120) (Fin (1 / 2)) (Fin 4) (Fin (17 / 4))]"
proof -
  let ?R = "store three_hits pricey"
  let ?out = "[listed ''a'' ''Suntec City Carpark B1'' (Fin 60) (Fin (1 / 2)) (Fin 3) (Fin (3 / 2)),
              listed ''c'' ''Vivocity Rooftop EV'' (Fin 120) (Fin (1 / 2)) (Fin 4) (Fin (17 / 4))]"
  have p: "maxPrice plain_query = None" by (simp add: plain_query_def)
  have s: "searchChargers node ?R plain_query = Inr ?out" by code_simp
  note t = omitted_options_take_defaults[where H = node and R = ?R and la = "Fin 1.3521" and lo = "Fin 103.8198"
      and os = plain_query and out = ?out]
  from t s have e: "searchChargers node ?R
        \<lparr>lat = Fin 1.3521, lng = Fin 103.8198, radiusKm = Some (Fin 30), limit = Some (Fin 200),
         minPower = Some (Fin 0), maxPrice = Some (Fin 10), q = Some '''', sortBy = Some ''distance''\<rparr>
       = Inr ?out"
    by (simp add: plain_query_def)
  from t p s have "\<forall>r\<in>set ?out. js_le (pricePerKWh r) (Fin (10 + 1 / 10 ^ 9))" by blast
  then have c: "list_all (\<lambda>r. js_le (pricePerKWh r) (Fin (10 + 1 / 10 ^ 9))) ?out"
    by (simp only: list_all_iff)
  from p s e c show ?thesis by blast
qed

text \<open>
  C10 (as amended). The record built for a hit whose distance is absent (or the empty
  string) has \<open>distanceKm = NaN\<close>. A reported distance equal to zero is not such a
  value: it arrives as a non-empty string, \<open>"0.0000"\<close>, which is truthy, and the
  record has \<open>distanceKm = 0\<close>; in general a non-empty string gives its numeric value.
\<close>

theorem zero_distance_is_kept_absent_is_NaN:
  assumes "merge_items H (map member' geo) hashes geo = Inr items"
    and "i < length geo"
  shows "(distance (geo ! i) = JStr s \<and> s \<noteq> [] \<longrightarrow> distanceKm (items ! i) = StringToNumber H s)
    \<and> (distance (geo ! i) = JStr s \<and> s \<noteq> [] \<and> StringToNumber H s = Fin 0
         \<longrightarrow> distanceKm (items ! i) = Fin 0 \<and> distanceKm (items ! i) \<noteq> NaN)
    \<and> (distance (geo ! i) = Undefined \<or> distance (geo ! i) = JStr '''' \<longrightarrow> distanceKm (items ! i) = NaN)"
proof -
  from merge_items_Inr(2)[OF assms(1)] assms(2)
  have "build_item H (member' (geo ! i)) (hashes ! i) (geo ! i) = Inr (items ! i)" by simp
  from build_item_Inr_D(8)[OF this]
  have d: "distanceKm (items ! i) = (if truthy (distance (geo ! i)) then Number H (distance (geo ! i)) else NaN)" .
  show ?thesis unfolding d by auto
qed

text \<open>C10, at a hit at the origin and at a reply without a distance.\<close>

theorem zero_distance_is_kept_absent_is_NaN_witness:
  "merge_items node [''a'', ''b'']
      [map_of (charger ''Suntec City Carpark B1'' ''60'' ''0.5'' ''[]'' ''3''),
       map_of (charger ''ION Orchard L5 EV Bays'' ''150'' ''0.55'' ''[]'' ''5'')]
      [hit ''a'' (JStr ''0.0000''), \<lparr>member' = ''b'', distance = Undefined, coordinates = None\<rparr>]
     = Inr [listed ''a'' ''Suntec City Carpark B1'' (Fin 60) (Fin (1 / 2)) (Fin 3) (Fin 0),
            (listed ''b'' ''ION Orchard L5 EV Bays'' (Fin 150) (Fin (11 / 20)) (Fin 5) NaN)\<lparr>coords := None\<rparr>]
   \<and> StringToNumber node ''0.0000'' = Fin 0
   \<and> distanceKm (listed ''a'' ''Suntec City Carpark B1'' (Fin 60) (Fin (1 / 2)) (Fin 3) (Fin 0)) = Fin 0
   \<and> distanceKm (listed ''a'' ''Suntec City Carpark B1'' (Fin 60) (Fin (1 / 2)) (Fin 3) (Fin 0)) \<noteq> NaN
   \<and> distanceKm ((listed ''b'' ''ION Orchard L5 EV Bays'' (Fin 150) (Fin (11 / 20)) (Fin 5) NaN)\<lparr>coords := None\<rparr>) = NaN"
proof -
  let ?ga = "hit ''a'' (JStr ''0.0000'')"
  let ?gb = "\<lparr>member' = ''b'', distance = Undefined, coordinates = None\<rparr>"
  let ?geo = "[?ga, ?gb]"
  let ?hs = "[map_of (charger ''Suntec City Carpark B1'' ''60'' ''0.5'' ''[]'' ''3''),
       map_of (charger ''ION Orchard L5 EV Bays'' ''150'' ''0.55'' ''[]'' ''5'')]"
  let ?ra = "listed ''a'' ''Suntec City Carpark B1'' (Fin 60) (Fin (1 / 2)) (Fin 3) (Fin 0)"
  let ?rb = "(listed ''b'' ''ION Orchard L5 EV Bays'' (Fin 150) (Fin (11 / 20)) (Fin 5) NaN)\<lparr>coords := None\<rparr>"
  have m: "merge_items node [''a'', ''b''] ?hs ?geo = Inr [?ra, ?rb]" by code_simp
  have ids: "map member' ?geo = [''a'', ''b'']" by (simp add: hit_def)
  from m ids have m': "merge_items node (map member' ?geo) ?hs ?geo = Inr [?ra, ?rb]" by simp
  have z: "StringToNumber node ''0.0000'' = Fin 0" by code_simp
  have da: "distance (?geo ! 0) = JStr ''0.0000''" by (simp add: hit_def)
  have db: "distance (?geo ! 1) = Undefined" by simp
  from zero_distance_is_kept_absent_is_NaN[OF m', of 0 "''0.0000''"] da z
  have c0: "distanceKm ?ra = Fin 0 \<and> distanceKm ?ra \<noteq> NaN" by simp
  from zero_distance_is_kept_absent_is_NaN[OF m', of 1 "''''"] db
  have c1: "distanceKm ?rb = NaN" by simp
  from m z c0 c1 show ?thesis by blast
qed

text \<open>
  C10 as stated fails: the origin coincides with charger \<open>a\<close>, the index reports the
  distance \<open>"0.0000"\<close>, and the returned record has \<open>distanceKm = 0\<close>, not NaN.
\<close>

theorem origin_distance_counterexample:
  "searchChargers node (store origin_hits seeded) plain_query
     = Inr [listed ''a'' ''Suntec City Carpark B1'' (Fin 60) (Fin (1 / 2)) (Fin 3) (Fin 0),
            listed ''b'' ''ION Orchard L5 EV Bays'' (Fin 150) (Fin (11 / 20)) (Fin 5) (Fin (5 / 2))]
   \<and> truthy (JStr ''0.0000'')
   \<and> Fin 0 \<noteq> NaN"
  by code_simp

end
